theory Spec2Isabelle
  imports Main "HOL-Library.Word"
begin

unbundle bit_operations_syntax

section \<open>The rotary encoder driver (drivers/input/misc/rotary\_encoder.c)\<close>

subsection \<open>Data model\<close>

type_synonym u32 = "32 word"

text \<open>
  The input device the encoder reports to is modelled by the events handed to it, oldest
  first. \<open>input_report_rel\<close> and \<open>input_report_abs\<close> take the axis as an unsigned
  code and the value as a C \<open>int\<close>; \<open>input_sync\<close> closes a report.
\<close>

datatype input_event = EV_REL u32 int | EV_ABS u32 int | EV_SYN

text \<open>
  A kernel mutex is not recursive: it is either free or held, and locking a held mutex
  blocks until its holder releases it.
\<close>

datatype mutex = Unlocked | Locked

text \<open>
  \<open>struct rotary_encoder\<close>. The \<open>input\<close> pointer becomes the event log of the input
  device; \<open>u32\<close> and \<open>unsigned int\<close> fields are 32-bit words; \<open>signed char dir\<close> is
  an 8-bit word read through \<open>sint\<close>. The GPIO lines are the environment: every function
  that samples them takes their logical levels, \<open>desc[0]\<close> first, as a list.
\<close>

record rotary_encoder =
  input :: "input_event list"
  access_mutex :: mutex
  steps :: u32
  axis :: u32
  relative_axis :: bool
  rollover :: bool
  absolute_encoder :: bool
  pos :: u32
  armed :: bool
  dir :: "8 word"
  last_stable :: u32

text \<open>
  What can keep an interrupt handler from returning: blocking for ever on a mutex that
  nobody will release, and \<open>pos %= steps\<close> with \<open>steps = 0\<close>, which C leaves
  undefined (a divide-error trap where the processor has one).
\<close>

datatype fault = Deadlock | DivideError

text \<open>
  The outcome of one handler invocation: it returns \<open>IRQ_HANDLED\<close>, or it never returns.
  Both carry the encoder as the invocation left it.
\<close>

datatype irq_result = IRQ_HANDLED rotary_encoder | Stuck fault rotary_encoder

fun state_of :: "irq_result \<Rightarrow> rotary_encoder" where
  "state_of (IRQ_HANDLED e) = e"
| "state_of (Stuck f e) = e"

subsection \<open>Channel sampler\<close>

text \<open>
  The loop of \<open>rotary_encoder_get_state\<close> over the remaining lines, with the
  accumulator \<open>ret\<close>: a set low bit of \<open>ret\<close> inverts the next level (gray to binary),
  then \<open>ret = ret << 1 | val\<close>.
\<close>

fun get_state_loop :: "bool list \<Rightarrow> u32 \<Rightarrow> u32" where
  "get_state_loop [] ret = ret"
| "get_state_loop (v # vs) ret =
     get_state_loop vs
       (push_bit 1 ret OR of_bool (if ret AND 1 \<noteq> 0 then \<not> v else v))"

definition rotary_encoder_get_state :: "bool list \<Rightarrow> u32" where
  "rotary_encoder_get_state gpios = get_state_loop gpios 0 AND 3"

fun get_gpios_state_loop :: "bool list \<Rightarrow> u32 \<Rightarrow> u32" where
  "get_gpios_state_loop [] ret = ret"
| "get_gpios_state_loop (v # vs) ret =
     get_gpios_state_loop vs (push_bit 1 ret OR of_bool v)"

definition rotary_encoder_get_gpios_state :: "bool list \<Rightarrow> u32" where
  "rotary_encoder_get_gpios_state gpios = get_gpios_state_loop gpios 0"

subsection \<open>Event reporter\<close>

text \<open>
  \<open>rotary_encoder_report_event\<close>. \<open>None\<close> is the division by zero of
  \<open>pos %= encoder->steps\<close>, reached before \<open>pos\<close> is stored or anything is reported.
\<close>

definition rotary_encoder_report_event :: "rotary_encoder \<Rightarrow> rotary_encoder option" where
  "rotary_encoder_report_event e =
     (if relative_axis e then
        Some (e\<lparr>input := input e @ [EV_REL (axis e) (sint (dir e)), EV_SYN]\<rparr>)
      else
        let p0 = pos e;
            p1 = (if sint (dir e) < 0 then
                    (let q = (if rollover e then p0 + steps e else p0)
                     in if q \<noteq> 0 then q - 1 else q)
                  else
                    (if rollover e \<or> p0 < steps e then p0 + 1 else p0))
        in if rollover e \<and> steps e = 0 then None
           else
             let p2 = (if rollover e then p1 mod steps e else p1)
             in Some (e\<lparr>pos := p2,
                        input := input e @ [EV_ABS (axis e) (sint p2), EV_SYN]\<rparr>))"

subsection \<open>The mutex\<close>

text \<open>
  \<open>mutex_lock\<close> takes a free mutex; on a held one the caller blocks, and in a
  sequential run of handlers nobody is left to release it: \<open>None\<close>.
\<close>

definition mutex_lock :: "rotary_encoder \<Rightarrow> rotary_encoder option" where
  "mutex_lock e =
     (case access_mutex e of
        Unlocked \<Rightarrow> Some (e\<lparr>access_mutex := Locked\<rparr>)
      | Locked \<Rightarrow> None)"

definition mutex_unlock :: "rotary_encoder \<Rightarrow> rotary_encoder" where
  "mutex_unlock e = e\<lparr>access_mutex := Unlocked\<rparr>"

subsection \<open>Interrupt handlers\<close>

text \<open>\<open>rotary_encoder_irq\<close>: one step per full period.\<close>

definition rotary_encoder_irq :: "bool list \<Rightarrow> rotary_encoder \<Rightarrow> irq_result" where
  "rotary_encoder_irq gpios e =
     (case mutex_lock e of
        None \<Rightarrow> Stuck Deadlock e
      | Some e1 \<Rightarrow>
          let state = rotary_encoder_get_state gpios in
          if state = 0 then
            (if armed e1 then
               (case rotary_encoder_report_event e1 of
                  None \<Rightarrow> Stuck DivideError e1
                | Some e2 \<Rightarrow> IRQ_HANDLED (mutex_unlock (e2\<lparr>armed := False\<rparr>)))
             else IRQ_HANDLED (mutex_unlock e1))
          else if state = 1 \<or> state = 3 then
            (if armed e1 then IRQ_HANDLED (mutex_unlock (e1\<lparr>dir := ucast (2 - state)\<rparr>))
             else IRQ_HANDLED (mutex_unlock e1))
          else if state = 2 then IRQ_HANDLED (mutex_unlock (e1\<lparr>armed := True\<rparr>))
          else IRQ_HANDLED (mutex_unlock e1))"

text \<open>\<open>rotary_encoder_half_period_irq\<close>: one step per half period.\<close>

definition rotary_encoder_half_period_irq :: "bool list \<Rightarrow> rotary_encoder \<Rightarrow> irq_result" where
  "rotary_encoder_half_period_irq gpios e =
     (case mutex_lock e of
        None \<Rightarrow> Stuck Deadlock e
      | Some e1 \<Rightarrow>
          let state = rotary_encoder_get_state gpios in
          if state AND 1 \<noteq> 0 then
            IRQ_HANDLED (mutex_unlock
              (e1\<lparr>dir := ucast (((last_stable e1 - state + 1) mod 4) - 1)\<rparr>))
          else if state \<noteq> last_stable e1 then
            (case rotary_encoder_report_event e1 of
               None \<Rightarrow> Stuck DivideError e1
             | Some e2 \<Rightarrow> IRQ_HANDLED (mutex_unlock (e2\<lparr>last_stable := state\<rparr>)))
          else IRQ_HANDLED (mutex_unlock e1))"

text \<open>
  \<open>rotary_encoder_quarter_period_irq\<close>: one step per state change. The label
  \<open>out\<close> stands before the store to \<open>last_stable\<close>, so the rejected jump stores too.
\<close>

definition rotary_encoder_quarter_period_irq :: "bool list \<Rightarrow> rotary_encoder \<Rightarrow> irq_result" where
  "rotary_encoder_quarter_period_irq gpios e =
     (case mutex_lock e of
        None \<Rightarrow> Stuck Deadlock e
      | Some e1 \<Rightarrow>
          let state = rotary_encoder_get_state gpios in
          if (last_stable e1 + 1) mod 4 = state then
            (case rotary_encoder_report_event (e1\<lparr>dir := 1\<rparr>) of
               None \<Rightarrow> Stuck DivideError (e1\<lparr>dir := 1\<rparr>)
             | Some e2 \<Rightarrow> IRQ_HANDLED (mutex_unlock (e2\<lparr>last_stable := state\<rparr>)))
          else if last_stable e1 = (state + 1) mod 4 then
            (case rotary_encoder_report_event (e1\<lparr>dir := - 1\<rparr>) of
               None \<Rightarrow> Stuck DivideError (e1\<lparr>dir := - 1\<rparr>)
             | Some e2 \<Rightarrow> IRQ_HANDLED (mutex_unlock (e2\<lparr>last_stable := state\<rparr>)))
          else IRQ_HANDLED (mutex_unlock (e1\<lparr>last_stable := state\<rparr>)))"

text \<open>
  \<open>rotary_absolute_encoder_irq\<close>. Its last statement before the return is a second
  \<open>mutex_lock\<close> on the mutex the handler already holds.
\<close>

definition rotary_absolute_encoder_irq :: "bool list \<Rightarrow> rotary_encoder \<Rightarrow> irq_result" where
  "rotary_absolute_encoder_irq gpios e =
     (case mutex_lock e of
        None \<Rightarrow> Stuck Deadlock e
      | Some e1 \<Rightarrow>
          let state = rotary_encoder_get_gpios_state gpios;
              e2 = (if state \<noteq> last_stable e1 then
                      e1\<lparr>input := input e1 @ [EV_ABS (axis e1) (sint state), EV_SYN],
                         last_stable := state\<rparr>
                    else e1)
          in (case mutex_lock e2 of
                None \<Rightarrow> Stuck Deadlock e2
              | Some e3 \<Rightarrow> IRQ_HANDLED e3))"

text \<open>\<open>rotary_encoder_poll_gpios\<close>: the poll tick, which takes no lock.\<close>

definition rotary_encoder_poll_gpios :: "bool list \<Rightarrow> rotary_encoder \<Rightarrow> rotary_encoder" where
  "rotary_encoder_poll_gpios gpios e =
     (let state = rotary_encoder_get_gpios_state gpios in
      if state \<noteq> last_stable e then
        e\<lparr>input := input e @ [EV_ABS (axis e) (sint state), EV_SYN],
          last_stable := state\<rparr>
      else e)"

text \<open>
  \<open>irq_handler_t handler\<close> of the probe function: which of the four handlers is
  registered, and the call through it.
\<close>

datatype irq_handler_t =
  Full_period_irq | Half_period_irq | Quarter_period_irq | Absolute_encoder_irq

fun call_handler :: "irq_handler_t \<Rightarrow> bool list \<Rightarrow> rotary_encoder \<Rightarrow> irq_result" where
  "call_handler Full_period_irq = rotary_encoder_irq"
| "call_handler Half_period_irq = rotary_encoder_half_period_irq"
| "call_handler Quarter_period_irq = rotary_encoder_quarter_period_irq"
| "call_handler Absolute_encoder_irq = rotary_absolute_encoder_irq"

text \<open>
  The state value a handler decodes from the lines: the raw concatenation for the
  absolute handler, the gray-decoded low two bits for the others.
\<close>

fun sampled :: "irq_handler_t \<Rightarrow> bool list \<Rightarrow> u32" where
  "sampled Absolute_encoder_irq gpios = rotary_encoder_get_gpios_state gpios"
| "sampled h gpios = rotary_encoder_get_state gpios"

text \<open>
  Interrupts delivered one after the other, each with the line levels its handler
  samples. A handler that does not return ends the run.
\<close>

fun deliver :: "(bool list \<Rightarrow> rotary_encoder \<Rightarrow> irq_result) \<Rightarrow> bool list list \<Rightarrow>
    rotary_encoder \<Rightarrow> irq_result" where
  "deliver h [] e = IRQ_HANDLED e"
| "deliver h (g # gs) e =
     (case h g e of
        IRQ_HANDLED e' \<Rightarrow> deliver h gs e'
      | Stuck f e' \<Rightarrow> Stuck f e')"

subsection \<open>Probing\<close>

text \<open>
  What \<open>rotary_encoder_probe\<close> is given by its collaborators: the device properties
  (\<open>None\<close> or \<open>False\<close> when a property is absent), whether each allocation succeeds,
  the result of \<open>devm_gpiod_get_array\<close> (an error code, or the lines with the levels they
  show while probing), and what the interrupt and input cores return for each line.
  \<open>poll_mode_support\<close> is the configuration switch
  \<open>CONFIG_INPUT_GPIO_ROTARY_ENCODER_POLL_MODE_SUPPORT\<close>.
\<close>

record platform_device =
  encoder_alloc_ok :: bool
  prop_steps :: "u32 option"
  prop_steps_per_period :: "u32 option"
  prop_half_period :: bool
  prop_rollover :: bool
  prop_axis :: "u32 option"
  prop_relative_axis :: bool
  prop_absolute_encoder :: bool
  prop_wakeup_source :: bool
  gpio_array :: "int + bool list"
  irq_alloc_ok :: bool
  gpiod_to_irq :: "nat \<Rightarrow> int"
  request_threaded_irq :: "nat \<Rightarrow> int"
  input_alloc_ok :: bool
  input_register_device :: int
  poll_mode_support :: bool
  polled_alloc_ok :: bool
  input_register_polled_device :: int

definition EINVAL :: int where
  "EINVAL = 22"

definition ENOMEM :: int where
  "ENOMEM = 12"

text \<open>
  Probing fails with a negative error code, or it evaluates
  \<open>steps_per_period >> (ndescs - 2)\<close> with a shift count of 32 or more, which C leaves
  undefined for a 32-bit operand.
\<close>

datatype probe_failure = Errno int | Undefined_shift

text \<open>What a successful probe leaves behind: the driver data and how it is driven.\<close>

record probed =
  drvdata :: rotary_encoder
  handler :: irq_handler_t
  polled :: bool
  wakeup :: bool

text \<open>The encoder as \<open>devm_kzalloc\<close> and \<open>mutex_init\<close> leave it: all zero, mutex free.\<close>

definition kzalloc_encoder :: rotary_encoder where
  "kzalloc_encoder =
     \<lparr>input = [], access_mutex = Unlocked, steps = 0, axis = 0, relative_axis = False,
      rollover = False, absolute_encoder = False, pos = 0, armed = False, dir = 0,
      last_stable = 0\<rparr>"

text \<open>
  The first part of \<open>rotary_encoder_probe\<close>, up to the choice of the handler.
  \<open>device_property_read_u32\<close> leaves its target untouched when the property is absent.
\<close>

definition probe_setup :: "platform_device \<Rightarrow> probe_failure + (irq_handler_t \<times> rotary_encoder)" where
  "probe_setup pd =
     (if \<not> encoder_alloc_ok pd then Inl (Errno (- ENOMEM))
      else
        let e1 = kzalloc_encoder\<lparr>steps := (case prop_steps pd of Some v \<Rightarrow> v | None \<Rightarrow> 0)\<rparr>;
            steps_per_period =
              (case prop_steps_per_period pd of
                 Some v \<Rightarrow> v
               | None \<Rightarrow> if prop_half_period pd then 2 else 1);
            e2 = e1\<lparr>rollover := prop_rollover pd,
                    axis := (case prop_axis pd of Some v \<Rightarrow> v | None \<Rightarrow> 0),
                    relative_axis := prop_relative_axis pd\<rparr>
        in case gpio_array pd of
             Inl err \<Rightarrow> Inl (Errno err)
           | Inr gpios \<Rightarrow>
               if length gpios < 2 then Inl (Errno (- EINVAL))
               else
                 let e3 = e2\<lparr>absolute_encoder := prop_absolute_encoder pd\<rparr> in
                 if absolute_encoder e3 then Inr (Absolute_encoder_irq, e3)
                 else if 32 \<le> length gpios - 2 then Inl Undefined_shift
                 else
                   let ratio = drop_bit (length gpios - 2) steps_per_period in
                   if ratio = 4 then
                     Inr (Quarter_period_irq,
                          e3\<lparr>last_stable := rotary_encoder_get_state gpios\<rparr>)
                   else if ratio = 2 then
                     Inr (Half_period_irq,
                          e3\<lparr>last_stable := rotary_encoder_get_state gpios\<rparr>)
                   else if ratio = 1 then Inr (Full_period_irq, e3)
                   else Inl (Errno (- EINVAL)))"

text \<open>
  The loop of the probe over the lines still to be served, by index. \<open>Inr True\<close>: a
  line without an interrupt made an absolute encoder register the poll device, which ends
  the probe at once; \<open>Inr False\<close>: every line got its interrupt.
\<close>

fun probe_request_irqs :: "platform_device \<Rightarrow> bool \<Rightarrow> nat list \<Rightarrow> probe_failure + bool" where
  "probe_request_irqs pd absolute [] = Inr False"
| "probe_request_irqs pd absolute (i # rest) =
     (if poll_mode_support pd \<and> gpiod_to_irq pd i < 0 \<and> absolute then
        (if \<not> polled_alloc_ok pd then Inl (Errno (- ENOMEM))
         else if input_register_polled_device pd \<noteq> 0 then
           Inl (Errno (input_register_polled_device pd))
         else Inr True)
      else if request_threaded_irq pd i \<noteq> 0 then Inl (Errno (request_threaded_irq pd i))
      else probe_request_irqs pd absolute rest)"

text \<open>
  \<open>rotary_encoder_probe\<close>. Setting up the input device's name and axis range
  (\<open>rotary_encoder_setup_input_params\<close>) changes nothing the decoder reads.
\<close>

definition rotary_encoder_probe :: "platform_device \<Rightarrow> probe_failure + probed" where
  "rotary_encoder_probe pd =
     (case probe_setup pd of
        Inl f \<Rightarrow> Inl f
      | Inr (h, e) \<Rightarrow>
          if \<not> irq_alloc_ok pd then Inl (Errno (- ENOMEM))
          else
            let ndescs = (case gpio_array pd of Inl err \<Rightarrow> 0 | Inr gpios \<Rightarrow> length gpios)
            in (case probe_request_irqs pd (absolute_encoder e) [0..<ndescs] of
                  Inl f \<Rightarrow> Inl f
                | Inr True \<Rightarrow>
                    Inr \<lparr>drvdata = e, handler = h, polled = True, wakeup = False\<rparr>
                | Inr False \<Rightarrow>
                    if \<not> input_alloc_ok pd then Inl (Errno (- ENOMEM))
                    else if input_register_device pd \<noteq> 0 then
                      Inl (Errno (input_register_device pd))
                    else
                      Inr \<lparr>drvdata = e, handler = h, polled = False,
                           wakeup = prop_wakeup_source pd\<rparr>))"

text \<open>
  A device as a board file would describe it, for running the probe: two lines at rest,
  an interrupt for each line, every allocation and registration succeeding, a relative
  axis and no steps-per-period property.
\<close>

definition example_device :: platform_device where
  "example_device =
     \<lparr>encoder_alloc_ok = True, prop_steps = Some 24, prop_steps_per_period = None,
      prop_half_period = False, prop_rollover = False, prop_axis = None,
      prop_relative_axis = True, prop_absolute_encoder = False, prop_wakeup_source = False,
      gpio_array = Inr [False, False], irq_alloc_ok = True, gpiod_to_irq = (\<lambda>i. 40 + int i),
      request_threaded_irq = (\<lambda>i. 0), input_alloc_ok = True, input_register_device = 0,
      poll_mode_support = False, polled_alloc_ok = True, input_register_polled_device = 0\<rparr>"

subsection \<open>The position rule in the words of the specification\<close>

text \<open>
  Section 4.4 of the specification, for the absolute axis, on the encoder's unsigned 32-bit
  quantities. Direction \<open>-1\<close>: if rollover, add steps first, then decrement if nonzero.
\<close>

definition spec_counter_clockwise :: "bool \<Rightarrow> u32 \<Rightarrow> u32 \<Rightarrow> u32" where
  "spec_counter_clockwise wraps n position =
     (let raised = (if wraps then position + n else position)
      in if raised \<noteq> 0 then raised - 1 else raised)"

text \<open>Direction \<open>+1\<close>: increment if rollover is true or position \<open><\<close> steps.\<close>

definition spec_clockwise :: "bool \<Rightarrow> u32 \<Rightarrow> u32 \<Rightarrow> u32" where
  "spec_clockwise wraps n position =
     (if wraps \<or> position < n then position + 1 else position)"

text \<open>If rollover: position = position mod steps.\<close>

definition spec_wrap :: "bool \<Rightarrow> u32 \<Rightarrow> u32 \<Rightarrow> u32" where
  "spec_wrap wraps n position = (if wraps then position mod n else position)"

section \<open>Properties\<close>

subsection \<open>Sampled states\<close>

lemma u32_less4_cases: "(y::u32) < 4 \<Longrightarrow> y = 0 \<or> y = 1 \<or> y = 2 \<or> y = 3"
proof -
  assume "y < 4"
  then have "unat y < 4" by (simp add: word_less_nat_alt)
  then have "unat y = 0 \<or> unat y = 1 \<or> unat y = 2 \<or> unat y = 3" by arith
  then show ?thesis unfolding word_unat_eq_iff by simp
qed

lemma and3_cases: "(x::u32) AND 3 = 0 \<or> x AND 3 = 1 \<or> x AND 3 = 2 \<or> x AND 3 = 3"
proof -
  have "x AND 3 \<le> 3" by (rule word_and_le1)
  then have "x AND 3 < 4" by (simp add: word_le_nat_alt word_less_nat_alt)
  then show ?thesis by (rule u32_less4_cases)
qed

lemma mod4_cases: "(x::u32) mod 4 = 0 \<or> x mod 4 = 1 \<or> x mod 4 = 2 \<or> x mod 4 = 3"
proof -
  have "x mod 4 < 4" by (rule word_mod_less_divisor) simp
  then show ?thesis by (rule u32_less4_cases)
qed

text \<open>The gray-decoded state is one of the four two-bit values.\<close>

lemma get_state_cases:
  "rotary_encoder_get_state g = 0 \<or> rotary_encoder_get_state g = 1 \<or>
   rotary_encoder_get_state g = 2 \<or> rotary_encoder_get_state g = 3"
  unfolding rotary_encoder_get_state_def by (rule and3_cases)

text \<open>Two lines: the gray code 00, 01, 11, 10 decodes to 0, 1, 2, 3.\<close>

lemma get_state_two_lines:
  "rotary_encoder_get_state [False, False] = 0"
  "rotary_encoder_get_state [False, True] = 1"
  "rotary_encoder_get_state [True, True] = 2"
  "rotary_encoder_get_state [True, False] = 3"
  by (simp_all add: rotary_encoder_get_state_def)

lemma ucast_minus_one: "(ucast (- 1 :: u32) :: 8 word) = - 1"
  by (rule bit_word_eqI) (auto simp: bit_simps)

subsection \<open>The event reporter\<close>

text \<open>The report is defined unless it takes the remainder by zero steps.\<close>

lemma report_event_Some_iff:
  "(\<exists>e'. rotary_encoder_report_event e = Some e') \<longleftrightarrow>
   (relative_axis e \<or> \<not> rollover e \<or> steps e \<noteq> 0)"
  by (auto simp: rotary_encoder_report_event_def Let_def)

lemma report_event_mutex:
  "rotary_encoder_report_event (e\<lparr>access_mutex := m\<rparr>) =
   map_option (\<lambda>x. x\<lparr>access_mutex := m\<rparr>) (rotary_encoder_report_event e)"
  by (simp add: rotary_encoder_report_event_def Let_def)

lemma report_event_armed:
  "rotary_encoder_report_event (e\<lparr>armed := a\<rparr>) =
   map_option (\<lambda>x. x\<lparr>armed := a\<rparr>) (rotary_encoder_report_event e)"
  by (simp add: rotary_encoder_report_event_def Let_def)

text \<open>The report touches the position and the event log only.\<close>

lemma report_event_frame:
  assumes "rotary_encoder_report_event e = Some e'"
  shows "access_mutex e' = access_mutex e" "armed e' = armed e" "dir e' = dir e"
    "last_stable e' = last_stable e" "steps e' = steps e" "axis e' = axis e"
    "relative_axis e' = relative_axis e" "rollover e' = rollover e"
    "absolute_encoder e' = absolute_encoder e"
  using assms by (auto simp: rotary_encoder_report_event_def Let_def split: if_splits)

text \<open>One report is one event followed by the sync.\<close>

lemma report_event_input:
  assumes "rotary_encoder_report_event e = Some e'"
  shows "input e' = input e @
     [if relative_axis e then EV_REL (axis e) (sint (dir e)) else EV_ABS (axis e) (sint (pos e')),
      EV_SYN]"
  using assms by (auto simp: rotary_encoder_report_event_def Let_def split: if_splits)

lemma report_event_absolute:
  assumes "\<not> relative_axis e" and "rollover e \<longrightarrow> steps e \<noteq> 0"
  shows "rotary_encoder_report_event e =
     Some (e\<lparr>pos := spec_wrap (rollover e) (steps e)
                (if sint (dir e) < 0 then spec_counter_clockwise (rollover e) (steps e) (pos e)
                 else spec_clockwise (rollover e) (steps e) (pos e)),
             input := input e @
               [EV_ABS (axis e) (sint (spec_wrap (rollover e) (steps e)
                (if sint (dir e) < 0 then spec_counter_clockwise (rollover e) (steps e) (pos e)
                 else spec_clockwise (rollover e) (steps e) (pos e)))), EV_SYN]\<rparr>)"
  using assms
  by (simp add: rotary_encoder_report_event_def spec_wrap_def spec_clockwise_def
      spec_counter_clockwise_def Let_def)

subsection \<open>Record bookkeeping\<close>

lemma unlock_id: "access_mutex e = Unlocked \<Longrightarrow> e\<lparr>access_mutex := Unlocked\<rparr> = e"
  by (cases e) simp

lemma unarm_id: "\<not> armed e \<Longrightarrow> e\<lparr>armed := False\<rparr> = e"
  by (cases e) simp

lemma armed_dir_commute: "e\<lparr>dir := d, armed := a\<rparr> = e\<lparr>armed := a, dir := d\<rparr>"
  by (cases e) simp

subsection \<open>The full-period handler, sample by sample\<close>

lemma irq_rest_unarmed:
  assumes "access_mutex e = Unlocked" "\<not> armed e" "rotary_encoder_get_state g = 0"
  shows "rotary_encoder_irq g e = IRQ_HANDLED e"
  using assms by (simp add: rotary_encoder_irq_def mutex_lock_def mutex_unlock_def unlock_id)

lemma irq_midpoint:
  assumes "access_mutex e = Unlocked" "rotary_encoder_get_state g = 2"
  shows "rotary_encoder_irq g e = IRQ_HANDLED (e\<lparr>armed := True\<rparr>)"
  using assms unlock_id [of "e\<lparr>armed := True\<rparr>"]
  by (simp add: rotary_encoder_irq_def mutex_lock_def mutex_unlock_def)

lemma irq_direction_armed:
  assumes "access_mutex e = Unlocked" "armed e"
    "rotary_encoder_get_state g = 1 \<or> rotary_encoder_get_state g = 3"
  shows "rotary_encoder_irq g e =
    IRQ_HANDLED (e\<lparr>dir := ucast (2 - rotary_encoder_get_state g)\<rparr>)"
  using assms unlock_id [of "e\<lparr>dir := ucast (2 - rotary_encoder_get_state g)\<rparr>"]
  by (auto simp add: rotary_encoder_irq_def mutex_lock_def mutex_unlock_def)

lemma irq_rest_armed:
  assumes "access_mutex e = Unlocked" "armed e" "rotary_encoder_get_state g = 0"
    "rotary_encoder_report_event e = Some e'"
  shows "rotary_encoder_irq g e = IRQ_HANDLED (e'\<lparr>armed := False\<rparr>)"
proof -
  have "access_mutex e' = Unlocked" using assms report_event_frame(1) by simp
  then have "e'\<lparr>armed := False, access_mutex := Unlocked\<rparr> = e'\<lparr>armed := False\<rparr>"
    using unlock_id [of "e'\<lparr>armed := False\<rparr>"] by simp
  with assms show ?thesis
    by (simp add: rotary_encoder_irq_def mutex_lock_def mutex_unlock_def report_event_mutex)
qed

text \<open>
  A turn through the midpoint and one direction sample, from rest back to rest: the three
  samples before the last report nothing, the last one reports once with the direction
  the third sample stored.
\<close>

lemma full_period_turn:
  assumes free: "access_mutex e = Unlocked" and rest: "\<not> armed e"
    and g0: "rotary_encoder_get_state g0 = 0" and g1: "rotary_encoder_get_state g1 = 2"
    and g2: "rotary_encoder_get_state g2 = 1 \<or> rotary_encoder_get_state g2 = 3"
    and g3: "rotary_encoder_get_state g3 = 0"
    and ok: "relative_axis e \<or> \<not> rollover e \<or> steps e \<noteq> 0"
  defines "d \<equiv> (ucast (2 - rotary_encoder_get_state g2) :: 8 word)"
  shows "deliver rotary_encoder_irq [g0] e = IRQ_HANDLED e"
    and "deliver rotary_encoder_irq [g0, g1] e = IRQ_HANDLED (e\<lparr>armed := True\<rparr>)"
    and "deliver rotary_encoder_irq [g0, g1, g2] e = IRQ_HANDLED (e\<lparr>armed := True, dir := d\<rparr>)"
    and "\<exists>e'. rotary_encoder_report_event (e\<lparr>dir := d\<rparr>) = Some e' \<and>
           deliver rotary_encoder_irq [g0, g1, g2, g3] e = IRQ_HANDLED e'"
proof -
  have s0: "rotary_encoder_irq g0 e = IRQ_HANDLED e"
    using free rest g0 by (simp add: irq_rest_unarmed)
  have s1: "rotary_encoder_irq g1 e = IRQ_HANDLED (e\<lparr>armed := True\<rparr>)"
    using free g1 by (simp add: irq_midpoint)
  have s2: "rotary_encoder_irq g2 (e\<lparr>armed := True\<rparr>) = IRQ_HANDLED (e\<lparr>armed := True, dir := d\<rparr>)"
    using irq_direction_armed [of "e\<lparr>armed := True\<rparr>" g2] free g2 by (simp add: d_def)
  from ok obtain e' where r: "rotary_encoder_report_event (e\<lparr>dir := d\<rparr>) = Some e'"
    using report_event_Some_iff [of "e\<lparr>dir := d\<rparr>"] by auto
  then have r': "rotary_encoder_report_event (e\<lparr>armed := True, dir := d\<rparr>) = Some (e'\<lparr>armed := True\<rparr>)"
    using report_event_armed [where e = "e\<lparr>dir := d\<rparr>" and a = True]
    by (simp add: armed_dir_commute)
  have "\<not> armed e'" using r rest report_event_frame(2) by fastforce
  then have fin: "e'\<lparr>armed := False\<rparr> = e'" by (rule unarm_id)
  have s3: "rotary_encoder_irq g3 (e\<lparr>armed := True, dir := d\<rparr>) = IRQ_HANDLED e'"
    using irq_rest_armed [OF _ _ g3 r'] free fin by simp
  show "deliver rotary_encoder_irq [g0] e = IRQ_HANDLED e" using s0 by simp
  show "deliver rotary_encoder_irq [g0, g1] e = IRQ_HANDLED (e\<lparr>armed := True\<rparr>)"
    using s0 s1 by simp
  show "deliver rotary_encoder_irq [g0, g1, g2] e = IRQ_HANDLED (e\<lparr>armed := True, dir := d\<rparr>)"
    using s0 s1 s2 by simp
  show "\<exists>e'. rotary_encoder_report_event (e\<lparr>dir := d\<rparr>) = Some e' \<and>
           deliver rotary_encoder_irq [g0, g1, g2, g3] e = IRQ_HANDLED e'"
    using s0 s1 s2 s3 r by simp
qed

subsection \<open>Runs of interrupts\<close>

lemma deliver_single: "state_of (deliver h [g] e) = state_of (h g e)"
  by (cases "h g e") simp_all

lemma deliver_returned:
  "h g e = IRQ_HANDLED e1 \<Longrightarrow> state_of (deliver h [g, g'] e) = state_of (h g' e1)"
  using deliver_single [of h g' e1] by simp

subsection \<open>Change detection, handler by handler\<close>

lemma irq_silent:
  assumes "rotary_encoder_get_state g = 0 \<longrightarrow> \<not> armed e"
  shows "input (state_of (rotary_encoder_irq g e)) = input e"
  using assms
  by (auto simp: rotary_encoder_irq_def mutex_lock_def mutex_unlock_def Let_def
      split: mutex.splits)

lemma irq_returns_unarmed_at_rest:
  assumes "rotary_encoder_irq g e = IRQ_HANDLED e'" and "rotary_encoder_get_state g = 0"
  shows "\<not> armed e'"
  using assms
  by (auto simp: rotary_encoder_irq_def mutex_lock_def mutex_unlock_def Let_def
      split: mutex.splits option.splits if_splits)

lemma irq_repeated:
  assumes "rotary_encoder_get_state g1 = rotary_encoder_get_state g2"
  shows "input (state_of (deliver rotary_encoder_irq [g1, g2] e)) =
         input (state_of (rotary_encoder_irq g1 e))"
proof (cases "rotary_encoder_irq g1 e")
  case (IRQ_HANDLED e1)
  then have "rotary_encoder_get_state g2 = 0 \<longrightarrow> \<not> armed e1"
    using assms irq_returns_unarmed_at_rest [of g1 e e1] by simp
  then have silent: "input (state_of (rotary_encoder_irq g2 e1)) = input e1"
    by (rule irq_silent)
  have twice: "state_of (deliver rotary_encoder_irq [g1, g2] e) = state_of (rotary_encoder_irq g2 e1)"
    using IRQ_HANDLED by (rule deliver_returned)
  have once: "state_of (rotary_encoder_irq g1 e) = e1" using IRQ_HANDLED by simp
  show ?thesis unfolding twice once by (rule silent)
next
  case (Stuck f e1)
  then show ?thesis by simp
qed

lemma half_period_silent:
  assumes "rotary_encoder_get_state g AND 1 = 0 \<longrightarrow> last_stable e = rotary_encoder_get_state g"
  shows "input (state_of (rotary_encoder_half_period_irq g e)) = input e"
  using assms
  by (auto simp: rotary_encoder_half_period_irq_def mutex_lock_def mutex_unlock_def Let_def
      split: mutex.splits)

lemma half_period_returns_stable:
  assumes "rotary_encoder_half_period_irq g e = IRQ_HANDLED e'"
    and "rotary_encoder_get_state g AND 1 = 0"
  shows "last_stable e' = rotary_encoder_get_state g"
  using assms
  by (auto simp: rotary_encoder_half_period_irq_def mutex_lock_def mutex_unlock_def Let_def
      split: mutex.splits option.splits if_splits)

lemma half_period_repeated:
  assumes "rotary_encoder_get_state g1 = rotary_encoder_get_state g2"
  shows "input (state_of (deliver rotary_encoder_half_period_irq [g1, g2] e)) =
         input (state_of (rotary_encoder_half_period_irq g1 e))"
proof (cases "rotary_encoder_half_period_irq g1 e")
  case (IRQ_HANDLED e1)
  then have "rotary_encoder_get_state g2 AND 1 = 0 \<longrightarrow>
      last_stable e1 = rotary_encoder_get_state g2"
    using assms half_period_returns_stable [of g1 e e1] by simp
  then have silent: "input (state_of (rotary_encoder_half_period_irq g2 e1)) = input e1"
    by (rule half_period_silent)
  have twice: "state_of (deliver rotary_encoder_half_period_irq [g1, g2] e) = state_of (rotary_encoder_half_period_irq g2 e1)"
    using IRQ_HANDLED by (rule deliver_returned)
  have once: "state_of (rotary_encoder_half_period_irq g1 e) = e1" using IRQ_HANDLED by simp
  show ?thesis unfolding twice once by (rule silent)
next
  case (Stuck f e1)
  then show ?thesis by simp
qed

lemma state_not_adjacent_to_itself:
  "(rotary_encoder_get_state g + 1) mod 4 \<noteq> rotary_encoder_get_state g"
  using get_state_cases [of g] by auto

lemma quarter_period_silent:
  assumes "last_stable e = rotary_encoder_get_state g"
  shows "input (state_of (rotary_encoder_quarter_period_irq g e)) = input e"
  using assms state_not_adjacent_to_itself [of g]
  by (auto simp: rotary_encoder_quarter_period_irq_def mutex_lock_def mutex_unlock_def Let_def
      split: mutex.splits)

lemma quarter_period_last_stable:
  assumes "rotary_encoder_quarter_period_irq g e = IRQ_HANDLED e'"
  shows "last_stable e' = rotary_encoder_get_state g"
  using assms
  by (auto simp: rotary_encoder_quarter_period_irq_def mutex_lock_def mutex_unlock_def Let_def
      split: mutex.splits option.splits if_splits)

lemma quarter_period_repeated:
  assumes "rotary_encoder_get_state g1 = rotary_encoder_get_state g2"
  shows "input (state_of (deliver rotary_encoder_quarter_period_irq [g1, g2] e)) =
         input (state_of (rotary_encoder_quarter_period_irq g1 e))"
proof (cases "rotary_encoder_quarter_period_irq g1 e")
  case (IRQ_HANDLED e1)
  then have "last_stable e1 = rotary_encoder_get_state g2"
    using assms quarter_period_last_stable [of g1 e e1] by simp
  then have silent: "input (state_of (rotary_encoder_quarter_period_irq g2 e1)) = input e1"
    by (rule quarter_period_silent)
  have twice: "state_of (deliver rotary_encoder_quarter_period_irq [g1, g2] e) = state_of (rotary_encoder_quarter_period_irq g2 e1)"
    using IRQ_HANDLED by (rule deliver_returned)
  have once: "state_of (rotary_encoder_quarter_period_irq g1 e) = e1" using IRQ_HANDLED by simp
  show ?thesis unfolding twice once by (rule silent)
next
  case (Stuck f e1)
  then show ?thesis by simp
qed

lemma absolute_irq_stuck:
  "\<exists>e'. rotary_absolute_encoder_irq g e = Stuck Deadlock e' \<and> access_mutex e' = Locked"
  by (auto simp: rotary_absolute_encoder_irq_def mutex_lock_def Let_def split: mutex.splits)

lemma absolute_repeated:
  "input (state_of (deliver rotary_absolute_encoder_irq [g1, g2] e)) =
   input (state_of (rotary_absolute_encoder_irq g1 e))"
  using absolute_irq_stuck [of g1 e] by auto

lemma poll_repeated:
  assumes "rotary_encoder_get_gpios_state g1 = rotary_encoder_get_gpios_state g2"
  shows "input (rotary_encoder_poll_gpios g2 (rotary_encoder_poll_gpios g1 e)) =
         input (rotary_encoder_poll_gpios g1 e)"
  using assms by (simp add: rotary_encoder_poll_gpios_def Let_def)

lemma half_period_last_stable:
  "(input (state_of (rotary_encoder_half_period_irq g e)) = input e \<longrightarrow>
      last_stable (state_of (rotary_encoder_half_period_irq g e)) = last_stable e) \<and>
   (input (state_of (rotary_encoder_half_period_irq g e)) \<noteq> input e \<longrightarrow>
      last_stable (state_of (rotary_encoder_half_period_irq g e)) = rotary_encoder_get_state g)"
  by (auto simp: rotary_encoder_half_period_irq_def mutex_lock_def mutex_unlock_def Let_def
      report_event_mutex report_event_frame
      dest!: report_event_input split: mutex.splits option.splits)

lemma absolute_last_stable:
  "(input (state_of (rotary_absolute_encoder_irq g e)) = input e \<longrightarrow>
      last_stable (state_of (rotary_absolute_encoder_irq g e)) = last_stable e) \<and>
   (input (state_of (rotary_absolute_encoder_irq g e)) \<noteq> input e \<longrightarrow>
      last_stable (state_of (rotary_absolute_encoder_irq g e)) = rotary_encoder_get_gpios_state g)"
  by (auto simp: rotary_absolute_encoder_irq_def mutex_lock_def Let_def split: mutex.splits)

lemma poll_last_stable:
  "(input (rotary_encoder_poll_gpios g e) = input e \<longrightarrow>
      last_stable (rotary_encoder_poll_gpios g e) = last_stable e) \<and>
   (input (rotary_encoder_poll_gpios g e) \<noteq> input e \<longrightarrow>
      last_stable (rotary_encoder_poll_gpios g e) = rotary_encoder_get_gpios_state g)"
  by (auto simp: rotary_encoder_poll_gpios_def Let_def)

lemma quarter_period_returns:
  assumes "access_mutex e = Unlocked" and "relative_axis e \<or> \<not> rollover e \<or> steps e \<noteq> 0"
  shows "\<exists>e'. rotary_encoder_quarter_period_irq g e = IRQ_HANDLED e'"
proof -
  have "\<exists>e'. rotary_encoder_report_event (e\<lparr>access_mutex := Locked, dir := d\<rparr>) = Some e'" for d
    using assms(2) report_event_Some_iff [of "e\<lparr>access_mutex := Locked, dir := d\<rparr>"] by simp
  from this [of 1] this [of "- 1"] assms(1) show ?thesis
    by (auto simp: rotary_encoder_quarter_period_irq_def mutex_lock_def Let_def)
qed

lemma report_event_locked:
  assumes "relative_axis e \<or> \<not> rollover e \<or> steps e \<noteq> 0"
  shows "\<exists>e'. rotary_encoder_report_event (e\<lparr>access_mutex := Locked\<rparr>) = Some e'"
  using assms report_event_Some_iff [of "e\<lparr>access_mutex := Locked\<rparr>"] by simp

lemma irq_returns:
  assumes "access_mutex e = Unlocked" and "relative_axis e \<or> \<not> rollover e \<or> steps e \<noteq> 0"
  shows "\<exists>e'. rotary_encoder_irq g e = IRQ_HANDLED e'"
  using assms(1) report_event_locked [OF assms(2)]
  by (auto simp: rotary_encoder_irq_def mutex_lock_def Let_def)

lemma half_period_returns:
  assumes "access_mutex e = Unlocked" and "relative_axis e \<or> \<not> rollover e \<or> steps e \<noteq> 0"
  shows "\<exists>e'. rotary_encoder_half_period_irq g e = IRQ_HANDLED e'"
  using assms(1) report_event_locked [OF assms(2)]
  by (auto simp: rotary_encoder_half_period_irq_def mutex_lock_def Let_def)

lemma absolute_irq_stores_sample:
  assumes "access_mutex e = Unlocked"
  shows "last_stable (state_of (rotary_absolute_encoder_irq g e)) =
         rotary_encoder_get_gpios_state g"
  using assms by (simp add: rotary_absolute_encoder_irq_def mutex_lock_def Let_def)

lemma absolute_irq_silent:
  assumes "last_stable e = rotary_encoder_get_gpios_state g"
  shows "input (state_of (rotary_absolute_encoder_irq g e)) = input e"
  using assms
  by (simp add: rotary_absolute_encoder_irq_def mutex_lock_def Let_def split: mutex.splits)

subsection \<open>The half-period direction\<close>

lemma half_dir_values:
  "sint (ucast ((0::u32) - 1) :: 8 word) = - 1"
  "sint (ucast ((1::u32) - 1) :: 8 word) = 0"
  "sint (ucast ((2::u32) - 1) :: 8 word) = 1"
  "sint (ucast ((3::u32) - 1) :: 8 word) = 2"
  by (simp_all add: ucast_minus_one)

lemma half_dir_range:
  "sint (ucast (((a::u32) mod 4) - 1) :: 8 word) \<in> {- 1, 0, 1, 2}"
proof -
  consider "a mod 4 = 0" | "a mod 4 = 1" | "a mod 4 = 2" | "a mod 4 = 3"
    using mod4_cases [of a] by blast
  then show ?thesis
  proof cases
    case 1 show ?thesis unfolding 1 half_dir_values by simp
  next
    case 2 show ?thesis unfolding 2 half_dir_values by simp
  next
    case 3 show ?thesis unfolding 3 half_dir_values by simp
  next
    case 4 show ?thesis unfolding 4 half_dir_values by simp
  qed
qed

lemma get_state_odd:
  "rotary_encoder_get_state g AND 1 \<noteq> 0 \<longleftrightarrow>
   rotary_encoder_get_state g = 1 \<or> rotary_encoder_get_state g = 3"
  using get_state_cases [of g] by auto

lemma half_dir_table:
  "sint (ucast ((((0::u32) - 1 + 1) mod 4) - 1) :: 8 word) = - 1"
  "sint (ucast ((((1::u32) - 1 + 1) mod 4) - 1) :: 8 word) = 0"
  "sint (ucast ((((2::u32) - 1 + 1) mod 4) - 1) :: 8 word) = 1"
  "sint (ucast ((((3::u32) - 1 + 1) mod 4) - 1) :: 8 word) = 2"
  "sint (ucast ((((0::u32) - 3 + 1) mod 4) - 1) :: 8 word) = 1"
  "sint (ucast ((((1::u32) - 3 + 1) mod 4) - 1) :: 8 word) = 2"
  "sint (ucast ((((2::u32) - 3 + 1) mod 4) - 1) :: 8 word) = - 1"
  "sint (ucast ((((3::u32) - 3 + 1) mod 4) - 1) :: 8 word) = 0"
  by (simp_all add: ucast_minus_one)

lemma half_dir_not_adjacent:
  assumes "(l::u32) < 4" and "s = 1 \<or> s = 3"
  shows "sint (ucast (((l - s + 1) mod 4) - 1) :: 8 word) \<in> {0, 2} \<longleftrightarrow>
         \<not> ((l + 1) mod 4 = s \<or> l = (s + 1) mod 4)"
proof -
  consider "l = 0" | "l = 1" | "l = 2" | "l = 3"
    using u32_less4_cases [OF assms(1)] by blast
  then show ?thesis
  proof cases
    case 1 from assms(2) show ?thesis unfolding 1 by (elim disjE) (simp_all add: half_dir_table ucast_minus_one)
  next
    case 2 from assms(2) show ?thesis unfolding 2 by (elim disjE) (simp_all add: half_dir_table ucast_minus_one)
  next
    case 3 from assms(2) show ?thesis unfolding 3 by (elim disjE) (simp_all add: half_dir_table ucast_minus_one)
  next
    case 4 from assms(2) show ?thesis unfolding 4 by (elim disjE) (simp_all add: half_dir_table ucast_minus_one)
  qed
qed

lemma half_period_odd_sample:
  assumes "access_mutex e = Unlocked" and "rotary_encoder_get_state g AND 1 \<noteq> 0"
  shows "rotary_encoder_half_period_irq g e =
    IRQ_HANDLED (e\<lparr>dir := ucast (((last_stable e - rotary_encoder_get_state g + 1) mod 4) - 1)\<rparr>)"
  using assms
    unlock_id [of "e\<lparr>dir := ucast (((last_stable e - rotary_encoder_get_state g + 1) mod 4) - 1)\<rparr>"]
  by (simp add: rotary_encoder_half_period_irq_def mutex_lock_def mutex_unlock_def)

lemma half_period_commit:
  assumes "access_mutex e = Unlocked" and "rotary_encoder_get_state g AND 1 = 0"
    and "rotary_encoder_get_state g \<noteq> last_stable e"
    and "rotary_encoder_report_event e = Some e'"
  shows "rotary_encoder_half_period_irq g e =
    IRQ_HANDLED (e'\<lparr>last_stable := rotary_encoder_get_state g\<rparr>)"
proof -
  have "access_mutex e' = Unlocked" using assms report_event_frame(1) by simp
  then have "e'\<lparr>last_stable := rotary_encoder_get_state g, access_mutex := Unlocked\<rparr> =
      e'\<lparr>last_stable := rotary_encoder_get_state g\<rparr>"
    using unlock_id [of "e'\<lparr>last_stable := rotary_encoder_get_state g\<rparr>"] by simp
  with assms show ?thesis
    by (simp add: rotary_encoder_half_period_irq_def mutex_lock_def mutex_unlock_def
        report_event_mutex)
qed

subsection \<open>The probe\<close>

lemma probe_setup_few_lines:
  assumes "encoder_alloc_ok pd" and "gpio_array pd = Inr gpios" and "length gpios < 2"
  shows "probe_setup pd = Inl (Errno (- EINVAL))"
  using assms by (simp add: probe_setup_def Let_def)

lemma probe_setup_failure:
  "probe_setup pd = Inl f \<Longrightarrow> rotary_encoder_probe pd = Inl f"
  by (simp add: rotary_encoder_probe_def)

lemma probe_success_setup:
  assumes "rotary_encoder_probe pd = Inr r"
  shows "probe_setup pd = Inr (handler r, drvdata r)"
  using assms
  by (auto simp: rotary_encoder_probe_def Let_def split: sum.splits if_splits bool.splits prod.splits)

lemma upt_two: "[0..<2] = [0, Suc 0]"
  by (simp add: upt_conv_Cons numeral_2_eq_2)

lemma probe_setup_steps:
  assumes "probe_setup pd = Inr (h, e)"
  shows "steps e = (case prop_steps pd of Some v \<Rightarrow> v | None \<Rightarrow> 0)"
  using assms
  by (auto simp: probe_setup_def Let_def kzalloc_encoder_def split: sum.splits if_splits)

subsection \<open>Full-period decoding\<close>

text \<open>
  Claim C1, as the code has it. In full-period mode, from the unarmed rest state with the
  mutex free, the samples 00, 10, 00 report nothing on the first two samples and report
  once on the final 00: the handler commits whenever it is armed, and sample 10 alone arms
  it. The report uses the direction that was stored before the three samples, and the
  encoder ends as the reporter leaves it, unarmed.
\<close>

theorem full_period_bounce_commits:
  assumes "access_mutex e = Unlocked" and "\<not> armed e"
    and "rotary_encoder_get_state g0 = 0" and "rotary_encoder_get_state g1 = 2"
    and "rotary_encoder_get_state g2 = 0"
    and "rotary_encoder_report_event e = Some e'"
  shows "deliver rotary_encoder_irq [g0] e = IRQ_HANDLED e \<and>
         deliver rotary_encoder_irq [g0, g1] e = IRQ_HANDLED (e\<lparr>armed := True\<rparr>) \<and>
         deliver rotary_encoder_irq [g0, g1, g2] e = IRQ_HANDLED e' \<and>
         input e' = input e @
           [if relative_axis e then EV_REL (axis e) (sint (dir e))
            else EV_ABS (axis e) (sint (pos e')), EV_SYN]"
proof -
  have s0: "rotary_encoder_irq g0 e = IRQ_HANDLED e"
    using assms by (simp add: irq_rest_unarmed)
  have s1: "rotary_encoder_irq g1 e = IRQ_HANDLED (e\<lparr>armed := True\<rparr>)"
    using assms by (simp add: irq_midpoint)
  have r: "rotary_encoder_report_event (e\<lparr>armed := True\<rparr>) = Some (e'\<lparr>armed := True\<rparr>)"
    using assms by (simp add: report_event_armed)
  have "\<not> armed e'" using assms report_event_frame(2) by simp
  then have fin: "e'\<lparr>armed := False\<rparr> = e'" by (rule unarm_id)
  have s2: "rotary_encoder_irq g2 (e\<lparr>armed := True\<rparr>) = IRQ_HANDLED e'"
    using irq_rest_armed [OF _ _ assms(5) r] assms(1) fin by simp
  from s0 s1 s2 report_event_input [OF assms(6)] show ?thesis by simp
qed

theorem full_period_bounce_commits_witness:
  "access_mutex (kzalloc_encoder\<lparr>steps := 4\<rparr>) = Unlocked \<and>
   \<not> armed (kzalloc_encoder\<lparr>steps := 4\<rparr>) \<and>
   rotary_encoder_get_state [False, False] = 0 \<and>
   rotary_encoder_get_state [True, True] = 2 \<and>
   rotary_encoder_report_event (kzalloc_encoder\<lparr>steps := 4\<rparr>) =
     Some (kzalloc_encoder\<lparr>steps := 4, pos := 1, input := [EV_ABS 0 1, EV_SYN]\<rparr>) \<and>
   deliver rotary_encoder_irq [[False, False], [True, True]] (kzalloc_encoder\<lparr>steps := 4\<rparr>) =
     IRQ_HANDLED (kzalloc_encoder\<lparr>steps := 4, armed := True\<rparr>) \<and>
   deliver rotary_encoder_irq [[False, False], [True, True], [False, False]]
       (kzalloc_encoder\<lparr>steps := 4\<rparr>) =
     IRQ_HANDLED (kzalloc_encoder\<lparr>steps := 4, pos := 1, input := [EV_ABS 0 1, EV_SYN]\<rparr>)"
proof -
  have h1: "access_mutex (kzalloc_encoder\<lparr>steps := 4\<rparr>) = Unlocked"
    by (simp add: kzalloc_encoder_def)
  have h2: "\<not> armed (kzalloc_encoder\<lparr>steps := 4\<rparr>)"
    by (simp add: kzalloc_encoder_def)
  have h3: "rotary_encoder_get_state [False, False] = 0"
    by (simp add: rotary_encoder_get_state_def)
  have h4: "rotary_encoder_get_state [True, True] = 2"
    by (simp add: rotary_encoder_get_state_def)
  have h5: "rotary_encoder_report_event (kzalloc_encoder\<lparr>steps := 4\<rparr>) =
     Some (kzalloc_encoder\<lparr>steps := 4, pos := 1, input := [EV_ABS 0 1, EV_SYN]\<rparr>)"
    by (simp add: rotary_encoder_report_event_def kzalloc_encoder_def)
  show ?thesis
    using full_period_bounce_commits [OF h1 h2 h3 h4 h3 h5] h1 h2 h3 h4 h5 by simp
qed

text \<open>
  Claim C1 as stated (the three samples emit zero events) fails: a freshly allocated
  encoder on an absolute axis with four steps reports position 1 on the final 00.
\<close>

theorem full_period_bounce_emits:
  "\<not> armed (kzalloc_encoder\<lparr>steps := 4\<rparr>) \<and>
   map rotary_encoder_get_state [[False, False], [True, True], [False, False]] = [0, 2, 0] \<and>
   input (kzalloc_encoder\<lparr>steps := 4\<rparr>) = [] \<and>
   input (state_of (deliver rotary_encoder_irq [[False, False], [True, True], [False, False]]
     (kzalloc_encoder\<lparr>steps := 4\<rparr>))) = [EV_ABS 0 1, EV_SYN]"
  by (simp add: rotary_encoder_get_state_def kzalloc_encoder_def rotary_encoder_irq_def
      mutex_lock_def mutex_unlock_def rotary_encoder_report_event_def)

text \<open>
  Claim C2. In full-period mode, from the unarmed rest state with the mutex free and a
  defined position update, the samples 00, 10, 01, 00 report nothing before the final 00
  and report exactly once there, with direction \<open>+1\<close> (stored as \<open>2 - state\<close> on sample
  01); with 11 in place of 01 the one report has direction \<open>-1\<close>.
\<close>

theorem full_period_round_trip:
  assumes "access_mutex e = Unlocked" and "\<not> armed e"
    and "rotary_encoder_get_state g0 = 0" and "rotary_encoder_get_state g1 = 2"
    and "rotary_encoder_get_state g3 = 0"
    and "relative_axis e \<or> \<not> rollover e \<or> steps e \<noteq> 0"
  shows "(rotary_encoder_get_state g2 = 1 \<longrightarrow>
           deliver rotary_encoder_irq [g0] e = IRQ_HANDLED e \<and>
           deliver rotary_encoder_irq [g0, g1] e = IRQ_HANDLED (e\<lparr>armed := True\<rparr>) \<and>
           deliver rotary_encoder_irq [g0, g1, g2] e = IRQ_HANDLED (e\<lparr>armed := True, dir := 1\<rparr>) \<and>
           (\<exists>e'. rotary_encoder_report_event (e\<lparr>dir := 1\<rparr>) = Some e' \<and>
              deliver rotary_encoder_irq [g0, g1, g2, g3] e = IRQ_HANDLED e' \<and>
              input e' = input e @
                [if relative_axis e then EV_REL (axis e) 1 else EV_ABS (axis e) (sint (pos e')),
                 EV_SYN])) \<and>
         (rotary_encoder_get_state g2 = 3 \<longrightarrow>
           deliver rotary_encoder_irq [g0] e = IRQ_HANDLED e \<and>
           deliver rotary_encoder_irq [g0, g1] e = IRQ_HANDLED (e\<lparr>armed := True\<rparr>) \<and>
           deliver rotary_encoder_irq [g0, g1, g2] e = IRQ_HANDLED (e\<lparr>armed := True, dir := - 1\<rparr>) \<and>
           (\<exists>e'. rotary_encoder_report_event (e\<lparr>dir := - 1\<rparr>) = Some e' \<and>
              deliver rotary_encoder_irq [g0, g1, g2, g3] e = IRQ_HANDLED e' \<and>
              input e' = input e @
                [if relative_axis e then EV_REL (axis e) (- 1) else EV_ABS (axis e) (sint (pos e')),
                 EV_SYN]))"
proof (intro conjI impI)
  assume st: "rotary_encoder_get_state g2 = 1"
  then have d: "(ucast (2 - rotary_encoder_get_state g2) :: 8 word) = 1" by simp
  note t = full_period_turn [OF assms(1-4) disjI1 [OF st] assms(5,6), unfolded d]
  show "deliver rotary_encoder_irq [g0] e = IRQ_HANDLED e" by (rule t(1))
  show "deliver rotary_encoder_irq [g0, g1] e = IRQ_HANDLED (e\<lparr>armed := True\<rparr>)" by (rule t(2))
  show "deliver rotary_encoder_irq [g0, g1, g2] e = IRQ_HANDLED (e\<lparr>armed := True, dir := 1\<rparr>)"
    by (rule t(3))
  from t(4) obtain e' where r: "rotary_encoder_report_event (e\<lparr>dir := 1\<rparr>) = Some e'"
    and f: "deliver rotary_encoder_irq [g0, g1, g2, g3] e = IRQ_HANDLED e'" by blast
  from report_event_input [OF r] r f
  show "\<exists>e'. rotary_encoder_report_event (e\<lparr>dir := 1\<rparr>) = Some e' \<and>
              deliver rotary_encoder_irq [g0, g1, g2, g3] e = IRQ_HANDLED e' \<and>
              input e' = input e @
                [if relative_axis e then EV_REL (axis e) 1 else EV_ABS (axis e) (sint (pos e')),
                 EV_SYN]" by simp
next
  assume st: "rotary_encoder_get_state g2 = 3"
  then have d: "(ucast (2 - rotary_encoder_get_state g2) :: 8 word) = - 1"
    by (simp add: ucast_minus_one)
  note t = full_period_turn [OF assms(1-4) disjI2 [OF st] assms(5,6), unfolded d]
  show "deliver rotary_encoder_irq [g0] e = IRQ_HANDLED e" by (rule t(1))
  show "deliver rotary_encoder_irq [g0, g1] e = IRQ_HANDLED (e\<lparr>armed := True\<rparr>)" by (rule t(2))
  show "deliver rotary_encoder_irq [g0, g1, g2] e = IRQ_HANDLED (e\<lparr>armed := True, dir := - 1\<rparr>)"
    by (rule t(3))
  from t(4) obtain e' where r: "rotary_encoder_report_event (e\<lparr>dir := - 1\<rparr>) = Some e'"
    and f: "deliver rotary_encoder_irq [g0, g1, g2, g3] e = IRQ_HANDLED e'" by blast
  from report_event_input [OF r] r f
  show "\<exists>e'. rotary_encoder_report_event (e\<lparr>dir := - 1\<rparr>) = Some e' \<and>
              deliver rotary_encoder_irq [g0, g1, g2, g3] e = IRQ_HANDLED e' \<and>
              input e' = input e @
                [if relative_axis e then EV_REL (axis e) (- 1) else EV_ABS (axis e) (sint (pos e')),
                 EV_SYN]" by simp
qed

theorem full_period_round_trip_witness:
  "access_mutex (kzalloc_encoder\<lparr>relative_axis := True\<rparr>) = Unlocked \<and>
   \<not> armed (kzalloc_encoder\<lparr>relative_axis := True\<rparr>) \<and>
   rotary_encoder_get_state [False, False] = 0 \<and>
   rotary_encoder_get_state [True, True] = 2 \<and>
   rotary_encoder_get_state [False, True] = 1 \<and>
   rotary_encoder_get_state [True, False] = 3 \<and>
   relative_axis (kzalloc_encoder\<lparr>relative_axis := True\<rparr>) \<and>
   deliver rotary_encoder_irq [[False, False], [True, True], [False, True]]
       (kzalloc_encoder\<lparr>relative_axis := True\<rparr>) =
     IRQ_HANDLED (kzalloc_encoder\<lparr>relative_axis := True, armed := True, dir := 1\<rparr>) \<and>
   deliver rotary_encoder_irq [[False, False], [True, True], [False, True], [False, False]]
       (kzalloc_encoder\<lparr>relative_axis := True\<rparr>) =
     IRQ_HANDLED (kzalloc_encoder\<lparr>relative_axis := True, dir := 1,
                                   input := [EV_REL 0 1, EV_SYN]\<rparr>) \<and>
   deliver rotary_encoder_irq [[False, False], [True, True], [True, False]]
       (kzalloc_encoder\<lparr>relative_axis := True\<rparr>) =
     IRQ_HANDLED (kzalloc_encoder\<lparr>relative_axis := True, armed := True, dir := - 1\<rparr>) \<and>
   deliver rotary_encoder_irq [[False, False], [True, True], [True, False], [False, False]]
       (kzalloc_encoder\<lparr>relative_axis := True\<rparr>) =
     IRQ_HANDLED (kzalloc_encoder\<lparr>relative_axis := True, dir := - 1,
                                   input := [EV_REL 0 (- 1), EV_SYN]\<rparr>)"
proof -
  let ?e = "kzalloc_encoder\<lparr>relative_axis := True\<rparr>"
  have h1: "access_mutex ?e = Unlocked" by (simp add: kzalloc_encoder_def)
  have h2: "\<not> armed ?e" by (simp add: kzalloc_encoder_def)
  have h3: "rotary_encoder_get_state [False, False] = 0"
    by (simp add: rotary_encoder_get_state_def)
  have h4: "rotary_encoder_get_state [True, True] = 2"
    by (simp add: rotary_encoder_get_state_def)
  have h5: "rotary_encoder_get_state [False, True] = 1"
    by (simp add: rotary_encoder_get_state_def)
  have h6: "rotary_encoder_get_state [True, False] = 3"
    by (simp add: rotary_encoder_get_state_def)
  have h7: "relative_axis ?e \<or> \<not> rollover ?e \<or> steps ?e \<noteq> 0" by simp
  have r1: "rotary_encoder_report_event (?e\<lparr>dir := 1\<rparr>) =
      Some (kzalloc_encoder\<lparr>relative_axis := True, dir := 1, input := [EV_REL 0 1, EV_SYN]\<rparr>)"
    by (simp add: rotary_encoder_report_event_def kzalloc_encoder_def)
  have r2: "rotary_encoder_report_event (?e\<lparr>dir := - 1\<rparr>) =
      Some (kzalloc_encoder\<lparr>relative_axis := True, dir := - 1, input := [EV_REL 0 (- 1), EV_SYN]\<rparr>)"
    by (simp add: rotary_encoder_report_event_def kzalloc_encoder_def)
  show ?thesis
    using full_period_round_trip [OF h1 h2 h3 h4 h3 h7, of "[False, True]"]
      full_period_round_trip [OF h1 h2 h3 h4 h3 h7, of "[True, False]"]
      h1 h2 h3 h4 h5 h6 r1 r2
    by (simp add: armed_dir_commute)
qed

subsection \<open>Position bookkeeping\<close>

text \<open>
  Claim C6. On the absolute axis, with the remainder defined, a report with direction
  \<open>-1\<close> sets the position to what the specification's rule gives (add steps first if
  rollover, decrement if nonzero, then reduce modulo steps if rollover), a report with
  direction \<open>+1\<close> likewise (increment iff rollover or position \<open><\<close> steps, then reduce),
  and the new position is what is reported. With four steps: rollover takes position 0 to
  3 counter-clockwise and 3 to 0 clockwise; without rollover position 4 stays 4 clockwise
  and position 0 stays 0 counter-clockwise.
\<close>

theorem report_event_position_rule:
  "(\<not> relative_axis e \<and> (rollover e \<longrightarrow> steps e \<noteq> 0) \<longrightarrow>
      (sint (dir e) = - 1 \<longrightarrow>
         (\<exists>e'. rotary_encoder_report_event e = Some e' \<and>
            pos e' = spec_wrap (rollover e) (steps e)
                       (spec_counter_clockwise (rollover e) (steps e) (pos e)) \<and>
            input e' = input e @ [EV_ABS (axis e) (sint (pos e')), EV_SYN])) \<and>
      (sint (dir e) = 1 \<longrightarrow>
         (\<exists>e'. rotary_encoder_report_event e = Some e' \<and>
            pos e' = spec_wrap (rollover e) (steps e)
                       (spec_clockwise (rollover e) (steps e) (pos e)) \<and>
            input e' = input e @ [EV_ABS (axis e) (sint (pos e')), EV_SYN]))) \<and>
   map_option pos (rotary_encoder_report_event
      (e\<lparr>relative_axis := False, steps := 4, rollover := True, pos := 0, dir := - 1\<rparr>)) = Some 3 \<and>
   map_option pos (rotary_encoder_report_event
      (e\<lparr>relative_axis := False, steps := 4, rollover := True, pos := 3, dir := 1\<rparr>)) = Some 0 \<and>
   map_option pos (rotary_encoder_report_event
      (e\<lparr>relative_axis := False, steps := 4, rollover := False, pos := 4, dir := 1\<rparr>)) = Some 4 \<and>
   map_option pos (rotary_encoder_report_event
      (e\<lparr>relative_axis := False, steps := 4, rollover := False, pos := 0, dir := - 1\<rparr>)) = Some 0"
proof -
  have general: "\<not> relative_axis e \<and> (rollover e \<longrightarrow> steps e \<noteq> 0) \<longrightarrow>
      (sint (dir e) = - 1 \<longrightarrow>
         (\<exists>e'. rotary_encoder_report_event e = Some e' \<and>
            pos e' = spec_wrap (rollover e) (steps e)
                       (spec_counter_clockwise (rollover e) (steps e) (pos e)) \<and>
            input e' = input e @ [EV_ABS (axis e) (sint (pos e')), EV_SYN])) \<and>
      (sint (dir e) = 1 \<longrightarrow>
         (\<exists>e'. rotary_encoder_report_event e = Some e' \<and>
            pos e' = spec_wrap (rollover e) (steps e)
                       (spec_clockwise (rollover e) (steps e) (pos e)) \<and>
            input e' = input e @ [EV_ABS (axis e) (sint (pos e')), EV_SYN]))"
    by (simp add: report_event_absolute)
  have i1: "map_option pos (rotary_encoder_report_event
      (e\<lparr>relative_axis := False, steps := 4, rollover := True, pos := 0, dir := - 1\<rparr>)) = Some 3"
    by (simp add: rotary_encoder_report_event_def)
  have i2: "map_option pos (rotary_encoder_report_event
      (e\<lparr>relative_axis := False, steps := 4, rollover := True, pos := 3, dir := 1\<rparr>)) = Some 0"
    by (simp add: rotary_encoder_report_event_def)
  have i3: "map_option pos (rotary_encoder_report_event
      (e\<lparr>relative_axis := False, steps := 4, rollover := False, pos := 4, dir := 1\<rparr>)) = Some 4"
    by (simp add: rotary_encoder_report_event_def)
  have i4: "map_option pos (rotary_encoder_report_event
      (e\<lparr>relative_axis := False, steps := 4, rollover := False, pos := 0, dir := - 1\<rparr>)) = Some 0"
    by (simp add: rotary_encoder_report_event_def)
  from general i1 i2 i3 i4 show ?thesis by blast
qed

theorem report_event_position_rule_witness:
  "\<not> relative_axis (kzalloc_encoder\<lparr>steps := 6, rollover := True, pos := 5\<rparr>) \<and>
   steps (kzalloc_encoder\<lparr>steps := 6, rollover := True, pos := 5\<rparr>) \<noteq> 0 \<and>
   sint (dir (kzalloc_encoder\<lparr>steps := 6, rollover := True, pos := 5, dir := - 1\<rparr>)) = - 1 \<and>
   sint (dir (kzalloc_encoder\<lparr>steps := 6, rollover := True, pos := 5, dir := 1\<rparr>)) = 1 \<and>
   rotary_encoder_report_event (kzalloc_encoder\<lparr>steps := 6, rollover := True, pos := 5, dir := - 1\<rparr>)
     = Some (kzalloc_encoder\<lparr>steps := 6, rollover := True, pos := 4, dir := - 1,
                             input := [EV_ABS 0 4, EV_SYN]\<rparr>) \<and>
   rotary_encoder_report_event (kzalloc_encoder\<lparr>steps := 6, rollover := True, pos := 5, dir := 1\<rparr>)
     = Some (kzalloc_encoder\<lparr>steps := 6, rollover := True, pos := 0, dir := 1,
                             input := [EV_ABS 0 0, EV_SYN]\<rparr>)"
  using
    report_event_position_rule [of "kzalloc_encoder\<lparr>steps := 6, rollover := True, pos := 5, dir := - 1\<rparr>"]
    report_event_position_rule [of "kzalloc_encoder\<lparr>steps := 6, rollover := True, pos := 5, dir := 1\<rparr>"]
  by (simp add: kzalloc_encoder_def rotary_encoder_report_event_def)

text \<open>
  Claim C9. On the absolute axis with rollover the reporter takes the remainder by
  \<open>steps\<close> unguarded: with \<open>steps = 0\<close> the report is the division by zero, and with
  \<open>steps\<close> nonzero it is defined and the position it stores lies below \<open>steps\<close>. The
  probe does not guard either: the encoder it sets up holds the \<open>steps\<close> property as
  read, and zero when the property is absent.
\<close>

theorem report_event_steps_precondition:
  "(\<not> relative_axis e \<and> rollover e \<longrightarrow>
     (steps e = 0 \<longrightarrow> rotary_encoder_report_event e = None) \<and>
     (steps e \<noteq> 0 \<longrightarrow>
        (\<exists>e'. rotary_encoder_report_event e = Some e' \<and> pos e' < steps e))) \<and>
   (probe_setup pd = Inr (h, e0) \<longrightarrow>
      steps e0 = (case prop_steps pd of Some v \<Rightarrow> v | None \<Rightarrow> 0))"
proof (intro impI conjI)
  assume a: "\<not> relative_axis e \<and> rollover e" and z: "steps e = 0"
  then show "rotary_encoder_report_event e = None"
    by (simp add: rotary_encoder_report_event_def Let_def)
next
  assume a: "\<not> relative_axis e \<and> rollover e" and nz: "steps e \<noteq> 0"
  from nz have "0 < steps e" by (simp add: word_neq_0_conv)
  then have "\<And>p. p mod steps e < steps e" by (rule word_mod_less_divisor)
  with a nz show "\<exists>e'. rotary_encoder_report_event e = Some e' \<and> pos e' < steps e"
    by (simp add: rotary_encoder_report_event_def Let_def)
next
  assume "probe_setup pd = Inr (h, e0)"
  then show "steps e0 = (case prop_steps pd of Some v \<Rightarrow> v | None \<Rightarrow> 0)"
    by (rule probe_setup_steps)
qed

theorem report_event_steps_precondition_witness:
  "probe_setup (example_device\<lparr>prop_steps := None, prop_rollover := True,
                               prop_relative_axis := False\<rparr>) =
     Inr (Full_period_irq, kzalloc_encoder\<lparr>rollover := True\<rparr>) \<and>
   \<not> relative_axis (kzalloc_encoder\<lparr>rollover := True\<rparr>) \<and>
   rollover (kzalloc_encoder\<lparr>rollover := True\<rparr>) \<and>
   steps (kzalloc_encoder\<lparr>rollover := True\<rparr>) = 0 \<and>
   rotary_encoder_report_event (kzalloc_encoder\<lparr>rollover := True\<rparr>) = None \<and>
   steps (kzalloc_encoder\<lparr>rollover := True, steps := 6, pos := 5\<rparr>) \<noteq> 0 \<and>
   (\<exists>e'. rotary_encoder_report_event (kzalloc_encoder\<lparr>rollover := True, steps := 6, pos := 5\<rparr>)
            = Some e' \<and> pos e' = 0 \<and> pos e' < 6)"
proof -
  have p: "probe_setup (example_device\<lparr>prop_steps := None, prop_rollover := True,
                               prop_relative_axis := False\<rparr>) =
     Inr (Full_period_irq, kzalloc_encoder\<lparr>rollover := True\<rparr>)"
    by (simp add: probe_setup_def example_device_def kzalloc_encoder_def)
  show ?thesis
    using
      report_event_steps_precondition [of "kzalloc_encoder\<lparr>rollover := True\<rparr>"
        "example_device\<lparr>prop_steps := None, prop_rollover := True, prop_relative_axis := False\<rparr>"
        Full_period_irq "kzalloc_encoder\<lparr>rollover := True\<rparr>"]
      report_event_steps_precondition [of "kzalloc_encoder\<lparr>rollover := True, steps := 6, pos := 5\<rparr>"
        "example_device\<lparr>prop_steps := None, prop_rollover := True, prop_relative_axis := False\<rparr>"
        Full_period_irq "kzalloc_encoder\<lparr>rollover := True\<rparr>"]
      p
    by (simp add: kzalloc_encoder_def rotary_encoder_report_event_def)
qed

subsection \<open>The reference state\<close>

text \<open>
  Claim C3, as the code has it. In the half-period and absolute modes (interrupt or poll)
  an invocation that reports nothing leaves \<open>last_stable\<close> as it was, and one that
  reports sets it to the sampled state, so \<open>last_stable\<close> is the state of the last
  report. In quarter-period mode every invocation that returns sets \<open>last_stable\<close> to the
  sampled state, reported or not, and with the mutex free and the position update defined
  it does return.
\<close>

theorem last_stable_tracking:
  "(h = Half_period_irq \<or> h = Absolute_encoder_irq \<longrightarrow>
      (input (state_of (call_handler h g e)) = input e \<longrightarrow>
         last_stable (state_of (call_handler h g e)) = last_stable e) \<and>
      (input (state_of (call_handler h g e)) \<noteq> input e \<longrightarrow>
         last_stable (state_of (call_handler h g e)) = sampled h g)) \<and>
   (input (rotary_encoder_poll_gpios g e) = input e \<longrightarrow>
      last_stable (rotary_encoder_poll_gpios g e) = last_stable e) \<and>
   (input (rotary_encoder_poll_gpios g e) \<noteq> input e \<longrightarrow>
      last_stable (rotary_encoder_poll_gpios g e) = rotary_encoder_get_gpios_state g) \<and>
   (\<forall>e'. rotary_encoder_quarter_period_irq g e = IRQ_HANDLED e' \<longrightarrow>
      last_stable e' = rotary_encoder_get_state g) \<and>
   (access_mutex e = Unlocked \<and> (relative_axis e \<or> \<not> rollover e \<or> steps e \<noteq> 0) \<longrightarrow>
      (\<exists>e'. rotary_encoder_quarter_period_irq g e = IRQ_HANDLED e'))"
  using half_period_last_stable [of g e] absolute_last_stable [of g e] poll_last_stable [of g e]
    quarter_period_last_stable [of g e] quarter_period_returns [of e g]
  by auto

theorem last_stable_tracking_witness:
  "input (state_of (rotary_encoder_half_period_irq [False, False]
      (kzalloc_encoder\<lparr>relative_axis := True\<rparr>))) = [] \<and>
   last_stable (state_of (rotary_encoder_half_period_irq [False, False]
      (kzalloc_encoder\<lparr>relative_axis := True\<rparr>))) = 0 \<and>
   input (state_of (rotary_encoder_half_period_irq [True, True]
      (kzalloc_encoder\<lparr>relative_axis := True\<rparr>))) = [EV_REL 0 0, EV_SYN] \<and>
   last_stable (state_of (rotary_encoder_half_period_irq [True, True]
      (kzalloc_encoder\<lparr>relative_axis := True\<rparr>))) = 2 \<and>
   input (state_of (rotary_absolute_encoder_irq [True, True]
      (kzalloc_encoder\<lparr>relative_axis := True\<rparr>))) = [EV_ABS 0 3, EV_SYN] \<and>
   last_stable (state_of (rotary_absolute_encoder_irq [True, True]
      (kzalloc_encoder\<lparr>relative_axis := True\<rparr>))) = 3 \<and>
   input (rotary_encoder_poll_gpios [True, True] (kzalloc_encoder\<lparr>relative_axis := True\<rparr>)) =
     [EV_ABS 0 3, EV_SYN] \<and>
   last_stable (rotary_encoder_poll_gpios [True, True]
      (kzalloc_encoder\<lparr>relative_axis := True\<rparr>)) = 3 \<and>
   input (rotary_encoder_poll_gpios [False, False] (kzalloc_encoder\<lparr>relative_axis := True\<rparr>)) = [] \<and>
   last_stable (rotary_encoder_poll_gpios [False, False]
      (kzalloc_encoder\<lparr>relative_axis := True\<rparr>)) = 0 \<and>
   access_mutex (kzalloc_encoder\<lparr>relative_axis := True\<rparr>) = Unlocked \<and>
   relative_axis (kzalloc_encoder\<lparr>relative_axis := True\<rparr>) \<and>
   rotary_encoder_quarter_period_irq [True, True] (kzalloc_encoder\<lparr>relative_axis := True\<rparr>) =
     IRQ_HANDLED (kzalloc_encoder\<lparr>relative_axis := True, last_stable := 2\<rparr>)"
  using
    last_stable_tracking [of Half_period_irq "[False, False]" "kzalloc_encoder\<lparr>relative_axis := True\<rparr>"]
    last_stable_tracking [of Half_period_irq "[True, True]" "kzalloc_encoder\<lparr>relative_axis := True\<rparr>"]
    last_stable_tracking [of Absolute_encoder_irq "[True, True]" "kzalloc_encoder\<lparr>relative_axis := True\<rparr>"]
    last_stable_tracking [of Absolute_encoder_irq "[False, False]" "kzalloc_encoder\<lparr>relative_axis := True\<rparr>"]
  by (simp add: kzalloc_encoder_def rotary_encoder_get_state_def rotary_encoder_get_gpios_state_def
      rotary_encoder_half_period_irq_def rotary_absolute_encoder_irq_def
      rotary_encoder_quarter_period_irq_def rotary_encoder_poll_gpios_def
      rotary_encoder_report_event_def mutex_lock_def mutex_unlock_def)

text \<open>
  Claim C3 as stated (a sample that reports nothing never changes \<open>last_stable\<close>) fails
  in quarter-period mode: from \<open>last_stable = 0\<close> the non-adjacent sample 2 reports
  nothing and leaves \<open>last_stable = 2\<close>.
\<close>

theorem quarter_period_moves_last_stable:
  "last_stable kzalloc_encoder = 0 \<and>
   rotary_encoder_get_state [True, True] = 2 \<and>
   input (state_of (rotary_encoder_quarter_period_irq [True, True] kzalloc_encoder)) =
     input kzalloc_encoder \<and>
   last_stable (state_of (rotary_encoder_quarter_period_irq [True, True] kzalloc_encoder)) = 2"
  by (simp add: kzalloc_encoder_def rotary_encoder_get_state_def
      rotary_encoder_quarter_period_irq_def mutex_lock_def mutex_unlock_def)

subsection \<open>Repeated samples\<close>

text \<open>
  Claim C8. For each of the four handlers and every encoder, when two interrupts in a row
  sample the same state value the second one reports nothing: the event log after both
  is the log after the first. The absolute interrupt handler never gets to a second
  sample (it keeps the mutex), but its change detection is silent on a repeated sample
  all the same: entered with the mutex free it leaves the sample in \<open>last_stable\<close>, and
  a sample equal to \<open>last_stable\<close> reports nothing. Two poll ticks in a row that sample
  the same value report nothing on the second tick.
\<close>

theorem repeated_sample_is_silent:
  "(sampled h g1 = sampled h g2 \<longrightarrow>
      input (state_of (deliver (call_handler h) [g1, g2] e)) =
      input (state_of (call_handler h g1 e))) \<and>
   (access_mutex e = Unlocked \<longrightarrow>
      last_stable (state_of (rotary_absolute_encoder_irq g1 e)) =
      rotary_encoder_get_gpios_state g1) \<and>
   (last_stable e = rotary_encoder_get_gpios_state g2 \<longrightarrow>
      input (state_of (rotary_absolute_encoder_irq g2 e)) = input e) \<and>
   (rotary_encoder_get_gpios_state g1 = rotary_encoder_get_gpios_state g2 \<longrightarrow>
      input (rotary_encoder_poll_gpios g2 (rotary_encoder_poll_gpios g1 e)) =
      input (rotary_encoder_poll_gpios g1 e))"
proof (intro conjI impI)
  assume same: "sampled h g1 = sampled h g2"
  show "input (state_of (deliver (call_handler h) [g1, g2] e)) =
        input (state_of (call_handler h g1 e))"
  proof (cases h)
    case Full_period_irq
    with same show ?thesis using irq_repeated [of g1 g2 e] by simp
  next
    case Half_period_irq
    with same show ?thesis using half_period_repeated [of g1 g2 e] by simp
  next
    case Quarter_period_irq
    with same show ?thesis using quarter_period_repeated [of g1 g2 e] by simp
  next
    case Absolute_encoder_irq
    then show ?thesis using absolute_repeated [of g1 g2 e] by simp
  qed
next
  assume "access_mutex e = Unlocked"
  then show "last_stable (state_of (rotary_absolute_encoder_irq g1 e)) =
      rotary_encoder_get_gpios_state g1" by (rule absolute_irq_stores_sample)
next
  assume "last_stable e = rotary_encoder_get_gpios_state g2"
  then show "input (state_of (rotary_absolute_encoder_irq g2 e)) = input e"
    by (rule absolute_irq_silent)
next
  assume "rotary_encoder_get_gpios_state g1 = rotary_encoder_get_gpios_state g2"
  then show "input (rotary_encoder_poll_gpios g2 (rotary_encoder_poll_gpios g1 e)) =
      input (rotary_encoder_poll_gpios g1 e)" by (rule poll_repeated)
qed

theorem repeated_sample_is_silent_witness:
  "input (state_of (rotary_encoder_irq [False, False]
      (kzalloc_encoder\<lparr>relative_axis := True, armed := True\<rparr>))) = [EV_REL 0 0, EV_SYN] \<and>
   input (state_of (deliver rotary_encoder_irq [[False, False], [False, False]]
      (kzalloc_encoder\<lparr>relative_axis := True, armed := True\<rparr>))) = [EV_REL 0 0, EV_SYN] \<and>
   input (state_of (rotary_encoder_half_period_irq [True, True]
      (kzalloc_encoder\<lparr>relative_axis := True\<rparr>))) = [EV_REL 0 0, EV_SYN] \<and>
   input (state_of (deliver rotary_encoder_half_period_irq [[True, True], [True, True]]
      (kzalloc_encoder\<lparr>relative_axis := True\<rparr>))) = [EV_REL 0 0, EV_SYN] \<and>
   input (state_of (rotary_encoder_quarter_period_irq [False, True]
      (kzalloc_encoder\<lparr>relative_axis := True\<rparr>))) = [EV_REL 0 1, EV_SYN] \<and>
   input (state_of (deliver rotary_encoder_quarter_period_irq [[False, True], [False, True]]
      (kzalloc_encoder\<lparr>relative_axis := True\<rparr>))) = [EV_REL 0 1, EV_SYN] \<and>
   input (state_of (rotary_absolute_encoder_irq [True, False]
      (kzalloc_encoder\<lparr>relative_axis := True\<rparr>))) = [EV_ABS 0 2, EV_SYN] \<and>
   input (state_of (deliver rotary_absolute_encoder_irq [[True, False], [True, False]]
      (kzalloc_encoder\<lparr>relative_axis := True\<rparr>))) = [EV_ABS 0 2, EV_SYN] \<and>
   access_mutex (kzalloc_encoder\<lparr>relative_axis := True\<rparr>) = Unlocked \<and>
   last_stable (state_of (rotary_absolute_encoder_irq [True, False]
      (kzalloc_encoder\<lparr>relative_axis := True\<rparr>))) = 2 \<and>
   rotary_encoder_get_gpios_state [True, False] = 2 \<and>
   input (state_of (rotary_absolute_encoder_irq [True, False]
      (kzalloc_encoder\<lparr>relative_axis := True, last_stable := 2\<rparr>))) = [] \<and>
   input (rotary_encoder_poll_gpios [True, False] (kzalloc_encoder\<lparr>relative_axis := True\<rparr>)) =
     [EV_ABS 0 2, EV_SYN] \<and>
   input (rotary_encoder_poll_gpios [True, False]
      (rotary_encoder_poll_gpios [True, False] (kzalloc_encoder\<lparr>relative_axis := True\<rparr>))) =
     [EV_ABS 0 2, EV_SYN]"
proof -
  have first:
    "input (state_of (rotary_encoder_irq [False, False]
      (kzalloc_encoder\<lparr>relative_axis := True, armed := True\<rparr>))) = [EV_REL 0 0, EV_SYN]"
    "input (state_of (rotary_encoder_half_period_irq [True, True]
      (kzalloc_encoder\<lparr>relative_axis := True\<rparr>))) = [EV_REL 0 0, EV_SYN]"
    "input (state_of (rotary_encoder_quarter_period_irq [False, True]
      (kzalloc_encoder\<lparr>relative_axis := True\<rparr>))) = [EV_REL 0 1, EV_SYN]"
    "input (state_of (rotary_absolute_encoder_irq [True, False]
      (kzalloc_encoder\<lparr>relative_axis := True\<rparr>))) = [EV_ABS 0 2, EV_SYN]"
    "input (rotary_encoder_poll_gpios [True, False] (kzalloc_encoder\<lparr>relative_axis := True\<rparr>)) =
     [EV_ABS 0 2, EV_SYN]"
    by (simp_all add: kzalloc_encoder_def rotary_encoder_get_state_def
        rotary_encoder_get_gpios_state_def rotary_encoder_irq_def
        rotary_encoder_half_period_irq_def rotary_absolute_encoder_irq_def
        rotary_encoder_quarter_period_irq_def rotary_encoder_poll_gpios_def
        rotary_encoder_report_event_def mutex_lock_def mutex_unlock_def)
  have raw: "rotary_encoder_get_gpios_state [True, False] = 2"
    by (simp add: rotary_encoder_get_gpios_state_def)
  have free: "access_mutex (kzalloc_encoder\<lparr>relative_axis := True\<rparr>) = Unlocked"
    by (simp add: kzalloc_encoder_def)
  have empty: "input (kzalloc_encoder\<lparr>relative_axis := True, last_stable := 2\<rparr>) = []"
    by (simp add: kzalloc_encoder_def)
  show ?thesis
    using
      repeated_sample_is_silent [of Full_period_irq "[False, False]" "[False, False]"
        "kzalloc_encoder\<lparr>relative_axis := True, armed := True\<rparr>"]
      repeated_sample_is_silent [of Half_period_irq "[True, True]" "[True, True]"
        "kzalloc_encoder\<lparr>relative_axis := True\<rparr>"]
      repeated_sample_is_silent [of Quarter_period_irq "[False, True]" "[False, True]"
        "kzalloc_encoder\<lparr>relative_axis := True\<rparr>"]
      repeated_sample_is_silent [of Absolute_encoder_irq "[True, False]" "[True, False]"
        "kzalloc_encoder\<lparr>relative_axis := True\<rparr>"]
      repeated_sample_is_silent [of Absolute_encoder_irq "[True, False]" "[True, False]"
        "kzalloc_encoder\<lparr>relative_axis := True, last_stable := 2\<rparr>"]
      first raw free empty
    by simp
qed

subsection \<open>Half-period decoding\<close>

text \<open>
  Claim C10. In half-period mode, with the mutex free, an odd sample stores the direction
  \<open>((last_stable - state + 1) mod 4) - 1\<close> and reports nothing; the stored value is one
  of \<open>-1, 0, 1, 2\<close>. For \<open>last_stable\<close> among the four states it is 0 or 2 exactly when
  \<open>last_stable\<close> and the sample are not adjacent modulo 4 (\<open>last_stable = 3\<close> with sample
  1 gives 2), and the next even sample that differs from \<open>last_stable\<close> reports with that
  stored direction: on a relative axis the event carries it as its value.
\<close>

theorem half_period_direction_range:
  assumes free: "access_mutex e = Unlocked"
    and odd: "rotary_encoder_get_state g AND 1 \<noteq> 0"
  defines "d \<equiv> (ucast (((last_stable e - rotary_encoder_get_state g + 1) mod 4) - 1) :: 8 word)"
  shows "rotary_encoder_half_period_irq g e = IRQ_HANDLED (e\<lparr>dir := d\<rparr>) \<and>
     sint d \<in> {- 1, 0, 1, 2} \<and>
     (last_stable e < 4 \<longrightarrow>
        (sint d \<in> {0, 2} \<longleftrightarrow>
         \<not> ((last_stable e + 1) mod 4 = rotary_encoder_get_state g \<or>
            last_stable e = (rotary_encoder_get_state g + 1) mod 4))) \<and>
     (last_stable e = 3 \<and> rotary_encoder_get_state g = 1 \<longrightarrow> sint d = 2) \<and>
     (rotary_encoder_get_state g' AND 1 = 0 \<and>
      rotary_encoder_get_state g' \<noteq> last_stable e \<and>
      rotary_encoder_report_event (e\<lparr>dir := d\<rparr>) = Some e' \<longrightarrow>
        deliver rotary_encoder_half_period_irq [g, g'] e =
          IRQ_HANDLED (e'\<lparr>last_stable := rotary_encoder_get_state g'\<rparr>) \<and>
        (relative_axis e \<longrightarrow> input e' = input e @ [EV_REL (axis e) (sint d), EV_SYN]))"
proof (intro conjI impI)
  show first: "rotary_encoder_half_period_irq g e = IRQ_HANDLED (e\<lparr>dir := d\<rparr>)"
    unfolding d_def using free odd by (rule half_period_odd_sample)
  show "sint d \<in> {- 1, 0, 1, 2}" unfolding d_def by (rule half_dir_range)
  have st: "rotary_encoder_get_state g = 1 \<or> rotary_encoder_get_state g = 3"
    using odd by (simp add: get_state_odd)
  {
    assume "last_stable e < 4"
    then show "sint d \<in> {0, 2} \<longleftrightarrow>
         \<not> ((last_stable e + 1) mod 4 = rotary_encoder_get_state g \<or>
            last_stable e = (rotary_encoder_get_state g + 1) mod 4)"
      unfolding d_def using st by (rule half_dir_not_adjacent)
  }
  {
    assume "last_stable e = 3 \<and> rotary_encoder_get_state g = 1"
    then show "sint d = 2" by (simp add: d_def)
  }
  {
    assume a: "rotary_encoder_get_state g' AND 1 = 0 \<and>
      rotary_encoder_get_state g' \<noteq> last_stable e \<and>
      rotary_encoder_report_event (e\<lparr>dir := d\<rparr>) = Some e'"
    then have "rotary_encoder_half_period_irq g' (e\<lparr>dir := d\<rparr>) =
        IRQ_HANDLED (e'\<lparr>last_stable := rotary_encoder_get_state g'\<rparr>)"
      using half_period_commit [of "e\<lparr>dir := d\<rparr>" g' e'] free by simp
    with first show "deliver rotary_encoder_half_period_irq [g, g'] e =
          IRQ_HANDLED (e'\<lparr>last_stable := rotary_encoder_get_state g'\<rparr>)" by simp
    {
      assume "relative_axis e"
      with a show "input e' = input e @ [EV_REL (axis e) (sint d), EV_SYN]"
        using report_event_input [of "e\<lparr>dir := d\<rparr>" e'] by simp
    }
  }
qed

theorem half_period_direction_range_witness:
  "access_mutex (kzalloc_encoder\<lparr>relative_axis := True, last_stable := 3\<rparr>) = Unlocked \<and>
   rotary_encoder_get_state [False, True] = 1 \<and>
   rotary_encoder_get_state [False, False] = 0 \<and>
   last_stable (kzalloc_encoder\<lparr>relative_axis := True, last_stable := 3\<rparr>) < 4 \<and>
   rotary_encoder_half_period_irq [False, True]
       (kzalloc_encoder\<lparr>relative_axis := True, last_stable := 3\<rparr>) =
     IRQ_HANDLED (kzalloc_encoder\<lparr>relative_axis := True, last_stable := 3, dir := 2\<rparr>) \<and>
   deliver rotary_encoder_half_period_irq [[False, True], [False, False]]
       (kzalloc_encoder\<lparr>relative_axis := True, last_stable := 3\<rparr>) =
     IRQ_HANDLED (kzalloc_encoder\<lparr>relative_axis := True, dir := 2,
                                   input := [EV_REL 0 2, EV_SYN], last_stable := 0\<rparr>)"
proof -
  let ?e = "kzalloc_encoder\<lparr>relative_axis := True, last_stable := 3\<rparr>"
  have h1: "access_mutex ?e = Unlocked" by (simp add: kzalloc_encoder_def)
  have s1: "rotary_encoder_get_state [False, True] = 1"
    by (simp add: rotary_encoder_get_state_def)
  have s0: "rotary_encoder_get_state [False, False] = 0"
    by (simp add: rotary_encoder_get_state_def)
  have h2: "rotary_encoder_get_state [False, True] AND 1 \<noteq> 0" by (simp add: s1)
  have h3: "last_stable ?e < 4" by simp
  have r: "rotary_encoder_report_event (?e\<lparr>dir := 2\<rparr>) =
      Some (kzalloc_encoder\<lparr>relative_axis := True, last_stable := 3, dir := 2,
                              input := [EV_REL 0 2, EV_SYN]\<rparr>)"
    by (simp add: rotary_encoder_report_event_def kzalloc_encoder_def)
  show ?thesis
    using half_period_direction_range [OF h1 h2, of "[False, False]"
        "kzalloc_encoder\<lparr>relative_axis := True, last_stable := 3, dir := 2,
                              input := [EV_REL 0 2, EV_SYN]\<rparr>"]
      h1 s1 s0 h3 r
    by (simp add: kzalloc_encoder_def del: deliver.simps)
qed

subsection \<open>The mutex across a handler\<close>

text \<open>
  The three quadrature handlers release what they take: whenever one of them returns, the
  mutex is free, and entered with the mutex free and a defined position update it returns.
\<close>

lemma quadrature_handlers_release:
  assumes "h \<noteq> Absolute_encoder_irq" and "call_handler h g e = IRQ_HANDLED e'"
  shows "access_mutex e' = Unlocked"
proof (cases h)
  case Full_period_irq
  with assms(2) show ?thesis
    by (auto simp: rotary_encoder_irq_def mutex_lock_def mutex_unlock_def Let_def
        split: mutex.splits option.splits if_splits)
next
  case Half_period_irq
  with assms(2) show ?thesis
    by (auto simp: rotary_encoder_half_period_irq_def mutex_lock_def mutex_unlock_def Let_def
        split: mutex.splits option.splits if_splits)
next
  case Quarter_period_irq
  with assms(2) show ?thesis
    by (auto simp: rotary_encoder_quarter_period_irq_def mutex_lock_def mutex_unlock_def Let_def
        split: mutex.splits option.splits if_splits)
next
  case Absolute_encoder_irq
  with assms(1) show ?thesis by simp
qed

lemma quadrature_handlers_return:
  assumes "h \<noteq> Absolute_encoder_irq" and "access_mutex e = Unlocked"
    and "relative_axis e \<or> \<not> rollover e \<or> steps e \<noteq> 0"
  shows "\<exists>e'. call_handler h g e = IRQ_HANDLED e'"
  using assms irq_returns [of e g] half_period_returns [of e g] quarter_period_returns [of e g]
  by (cases h) simp_all

text \<open>
  Claim C4 fails for the absolute handler. It takes the mutex at entry and, where the
  other handlers release it, takes it again: the invocation blocks on its own lock, never
  returns, and leaves the mutex held, for every encoder and every line reading. On a
  freshly allocated absolute encoder with lines 1, 0 it reports position 2 and then
  blocks.
\<close>

theorem absolute_irq_never_unlocks:
  "(\<exists>e'. rotary_absolute_encoder_irq g e = Stuck Deadlock e' \<and> access_mutex e' = Locked) \<and>
   rotary_absolute_encoder_irq [True, False] (kzalloc_encoder\<lparr>absolute_encoder := True\<rparr>) =
     Stuck Deadlock (kzalloc_encoder\<lparr>absolute_encoder := True, access_mutex := Locked,
                                      input := [EV_ABS 0 2, EV_SYN], last_stable := 2\<rparr>)"
proof
  show "\<exists>e'. rotary_absolute_encoder_irq g e = Stuck Deadlock e' \<and> access_mutex e' = Locked"
    by (auto simp: rotary_absolute_encoder_irq_def mutex_lock_def Let_def split: mutex.splits)
  show "rotary_absolute_encoder_irq [True, False] (kzalloc_encoder\<lparr>absolute_encoder := True\<rparr>) =
     Stuck Deadlock (kzalloc_encoder\<lparr>absolute_encoder := True, access_mutex := Locked,
                                      input := [EV_ABS 0 2, EV_SYN], last_stable := 2\<rparr>)"
    by (simp add: rotary_absolute_encoder_irq_def mutex_lock_def kzalloc_encoder_def
        rotary_encoder_get_gpios_state_def)
qed

subsection \<open>Construction\<close>

text \<open>
  Claim C5, as the code has it. With fewer than two lines the probe fails with
  \<open>-EINVAL\<close>, whether or not the encoder is an absolute one: the line count is checked
  before the \<open>absolute-encoder\<close> property is read. With two or more lines an absolute
  encoder passes the check and gets the absolute handler.
\<close>

theorem probe_line_count:
  "(encoder_alloc_ok pd \<and> gpio_array pd = Inr gpios \<and> length gpios < 2 \<longrightarrow>
      rotary_encoder_probe pd = Inl (Errno (- EINVAL))) \<and>
   (encoder_alloc_ok pd \<and> gpio_array pd = Inr gpios \<and> 2 \<le> length gpios \<and>
    prop_absolute_encoder pd \<longrightarrow>
      (\<exists>e. probe_setup pd = Inr (Absolute_encoder_irq, e) \<and> absolute_encoder e))"
proof (intro conjI impI)
  assume "encoder_alloc_ok pd \<and> gpio_array pd = Inr gpios \<and> length gpios < 2"
  then have "probe_setup pd = Inl (Errno (- EINVAL))" by (simp add: probe_setup_few_lines)
  then show "rotary_encoder_probe pd = Inl (Errno (- EINVAL))" by (rule probe_setup_failure)
next
  assume "encoder_alloc_ok pd \<and> gpio_array pd = Inr gpios \<and> 2 \<le> length gpios \<and>
    prop_absolute_encoder pd"
  then show "\<exists>e. probe_setup pd = Inr (Absolute_encoder_irq, e) \<and> absolute_encoder e"
    by (simp add: probe_setup_def Let_def)
qed

theorem probe_line_count_witness:
  "encoder_alloc_ok example_device \<and>
   rotary_encoder_probe (example_device\<lparr>gpio_array := Inr [True]\<rparr>) = Inl (Errno (- EINVAL)) \<and>
   rotary_encoder_probe (example_device\<lparr>prop_absolute_encoder := True, gpio_array := Inr [True]\<rparr>)
     = Inl (Errno (- EINVAL)) \<and>
   (\<exists>e. probe_setup (example_device\<lparr>prop_absolute_encoder := True,
                                      gpio_array := Inr [True, False, True]\<rparr>) =
          Inr (Absolute_encoder_irq, e) \<and> absolute_encoder e) \<and>
   (\<exists>r. rotary_encoder_probe (example_device\<lparr>prop_absolute_encoder := True,
                                      gpio_array := Inr [True, False, True]\<rparr>) = Inr r \<and>
        handler r = Absolute_encoder_irq)"
proof -
  have ok: "\<exists>r. rotary_encoder_probe (example_device\<lparr>prop_absolute_encoder := True,
                                      gpio_array := Inr [True, False, True]\<rparr>) = Inr r \<and>
        handler r = Absolute_encoder_irq"
    by (simp add: example_device_def rotary_encoder_probe_def probe_setup_def
        kzalloc_encoder_def upt_conv_Cons numeral_3_eq_3)
  show ?thesis
    using
      probe_line_count [of "example_device\<lparr>gpio_array := Inr [True]\<rparr>" "[True]"]
      probe_line_count [of "example_device\<lparr>prop_absolute_encoder := True, gpio_array := Inr [True]\<rparr>" "[True]"]
      probe_line_count [of "example_device\<lparr>prop_absolute_encoder := True,
                                      gpio_array := Inr [True, False, True]\<rparr>" "[True, False, True]"]
      ok
    by (simp add: example_device_def)
qed

text \<open>
  Claim C5 as stated (an absolute encoder is accepted with any line count from 1) fails:
  an absolute encoder with one line is refused with \<open>-EINVAL\<close>.
\<close>

theorem probe_rejects_single_absolute_line:
  "prop_absolute_encoder (example_device\<lparr>prop_absolute_encoder := True, gpio_array := Inr [True]\<rparr>) \<and>
   gpio_array (example_device\<lparr>prop_absolute_encoder := True, gpio_array := Inr [True]\<rparr>) = Inr [True] \<and>
   rotary_encoder_probe (example_device\<lparr>prop_absolute_encoder := True, gpio_array := Inr [True]\<rparr>)
     = Inl (Errno (- 22))"
  by (simp add: example_device_def rotary_encoder_probe_def probe_setup_def EINVAL_def)

text \<open>
  Claim C7. With the encoder allocated and at least two lines, and \<open>absolute-encoder\<close>
  unset, the handler follows \<open>steps_per_period >> (ndescs - 2)\<close> (the shift count below
  32): 4 selects the quarter-period handler, 2 the half-period one, 1 the full-period
  one, and any other value makes the probe fail with \<open>-EINVAL\<close>. With
  \<open>absolute-encoder\<close> set the absolute handler is selected and the steps-per-period
  properties are not looked at. A probe that succeeds registers the selected handler.
\<close>

theorem probe_mode_selection:
  assumes "encoder_alloc_ok pd" and "gpio_array pd = Inr gpios" and "2 \<le> length gpios"
  defines "steps_per_period \<equiv>
     (case prop_steps_per_period pd of Some v \<Rightarrow> v
      | None \<Rightarrow> if prop_half_period pd then 2 else (1::u32))"
  defines "ratio \<equiv> drop_bit (length gpios - 2) steps_per_period"
  shows "(\<not> prop_absolute_encoder pd \<and> length gpios - 2 < 32 \<longrightarrow>
           (ratio = 4 \<longrightarrow> (\<exists>e. probe_setup pd = Inr (Quarter_period_irq, e))) \<and>
           (ratio = 2 \<longrightarrow> (\<exists>e. probe_setup pd = Inr (Half_period_irq, e))) \<and>
           (ratio = 1 \<longrightarrow> (\<exists>e. probe_setup pd = Inr (Full_period_irq, e))) \<and>
           (ratio \<noteq> 4 \<and> ratio \<noteq> 2 \<and> ratio \<noteq> 1 \<longrightarrow>
              rotary_encoder_probe pd = Inl (Errno (- EINVAL)))) \<and>
         (prop_absolute_encoder pd \<longrightarrow>
           (\<exists>e. probe_setup pd = Inr (Absolute_encoder_irq, e)) \<and>
           probe_setup (pd\<lparr>prop_steps_per_period := v, prop_half_period := b\<rparr>) =
             probe_setup pd) \<and>
         (\<forall>r. rotary_encoder_probe pd = Inr r \<longrightarrow>
            probe_setup pd = Inr (handler r, drvdata r))"
proof (intro conjI impI allI)
  assume a: "\<not> prop_absolute_encoder pd \<and> length gpios - 2 < 32"
  {
    assume "ratio = 4"
    with a assms(1-3) show "\<exists>e. probe_setup pd = Inr (Quarter_period_irq, e)"
      by (simp add: probe_setup_def Let_def ratio_def steps_per_period_def)
  }
  {
    assume "ratio = 2"
    with a assms(1-3) show "\<exists>e. probe_setup pd = Inr (Half_period_irq, e)"
      by (simp add: probe_setup_def Let_def ratio_def steps_per_period_def)
  }
  {
    assume "ratio = 1"
    with a assms(1-3) show "\<exists>e. probe_setup pd = Inr (Full_period_irq, e)"
      by (simp add: probe_setup_def Let_def ratio_def steps_per_period_def)
  }
  {
    assume "ratio \<noteq> 4 \<and> ratio \<noteq> 2 \<and> ratio \<noteq> 1"
    with a assms(1-3) have "probe_setup pd = Inl (Errno (- EINVAL))"
      by (simp add: probe_setup_def Let_def ratio_def steps_per_period_def)
    then show "rotary_encoder_probe pd = Inl (Errno (- EINVAL))" by (rule probe_setup_failure)
  }
next
  assume "prop_absolute_encoder pd"
  with assms(1-3) show "\<exists>e. probe_setup pd = Inr (Absolute_encoder_irq, e)"
    by (simp add: probe_setup_def Let_def)
next
  assume "prop_absolute_encoder pd"
  with assms(1-3) show "probe_setup (pd\<lparr>prop_steps_per_period := v, prop_half_period := b\<rparr>) =
             probe_setup pd"
    by (simp add: probe_setup_def Let_def)
next
  fix r assume "rotary_encoder_probe pd = Inr r"
  then show "probe_setup pd = Inr (handler r, drvdata r)" by (rule probe_success_setup)
qed

theorem probe_mode_selection_witness:
  "encoder_alloc_ok example_device \<and> gpio_array example_device = Inr [False, False] \<and>
   \<not> prop_absolute_encoder example_device \<and>
   (\<exists>e. probe_setup (example_device\<lparr>prop_steps_per_period := Some 4\<rparr>) = Inr (Quarter_period_irq, e)) \<and>
   (\<exists>e. probe_setup (example_device\<lparr>prop_steps_per_period := Some 2\<rparr>) = Inr (Half_period_irq, e)) \<and>
   (\<exists>e. probe_setup (example_device\<lparr>prop_half_period := True\<rparr>) = Inr (Half_period_irq, e)) \<and>
   (\<exists>e. probe_setup example_device = Inr (Full_period_irq, e)) \<and>
   rotary_encoder_probe (example_device\<lparr>prop_steps_per_period := Some 3\<rparr>) = Inl (Errno (- EINVAL)) \<and>
   (\<exists>e. probe_setup (example_device\<lparr>prop_absolute_encoder := True, prop_steps_per_period := Some 3\<rparr>)
        = Inr (Absolute_encoder_irq, e)) \<and>
   (\<exists>r. rotary_encoder_probe (example_device\<lparr>prop_steps_per_period := Some 4\<rparr>) = Inr r \<and>
        handler r = Quarter_period_irq)"
proof -
  have ok: "\<exists>r. rotary_encoder_probe (example_device\<lparr>prop_steps_per_period := Some 4\<rparr>) = Inr r \<and>
        handler r = Quarter_period_irq"
    by (simp add: example_device_def rotary_encoder_probe_def probe_setup_def
        kzalloc_encoder_def upt_two)
  show ?thesis
    using
      probe_mode_selection [of "example_device\<lparr>prop_steps_per_period := Some 4\<rparr>" "[False, False]"]
      probe_mode_selection [of "example_device\<lparr>prop_steps_per_period := Some 2\<rparr>" "[False, False]"]
      probe_mode_selection [of "example_device\<lparr>prop_half_period := True\<rparr>" "[False, False]"]
      probe_mode_selection [of example_device "[False, False]"]
      probe_mode_selection [of "example_device\<lparr>prop_steps_per_period := Some 3\<rparr>" "[False, False]"]
      probe_mode_selection [of "example_device\<lparr>prop_absolute_encoder := True, prop_steps_per_period := Some 3\<rparr>" "[False, False]"]
      ok
    by (simp add: example_device_def)
qed

end
